theory Spec2Isabelle
  imports Complex_Main
begin

section \<open>JavaScript numbers\<close>

text \<open>
  The program is JavaScript. A value that the code treats as a number is modelled by
  \<open>jsnum\<close>: a finite number (an idealised real: rounding and the infinities of IEEE
  doubles are outside this model), \<open>NaN\<close>, or \<open>undefined\<close> (a field never assigned,
  a parameter not passed). Arithmetic converts \<open>undefined\<close> to \<open>NaN\<close> and
  \<open>NaN\<close> is contagious; every comparison with \<open>NaN\<close> is false; \<open>Math.max\<close> and
  \<open>Math.min\<close> return \<open>NaN\<close> as soon as one argument is \<open>NaN\<close>.
\<close>

datatype jsnum = Undefined | NaN | Num real

fun jadd :: "jsnum \<Rightarrow> jsnum \<Rightarrow> jsnum" where
  "jadd (Num a) (Num b) = Num (a + b)"
| "jadd _ _ = NaN"

fun jsub :: "jsnum \<Rightarrow> jsnum \<Rightarrow> jsnum" where
  "jsub (Num a) (Num b) = Num (a - b)"
| "jsub _ _ = NaN"

fun jmul :: "jsnum \<Rightarrow> jsnum \<Rightarrow> jsnum" where
  "jmul (Num a) (Num b) = Num (a * b)"
| "jmul _ _ = NaN"

text \<open>Division: a zero divisor gives an infinity or \<open>NaN\<close> in JavaScript; the model has
  no infinities and returns \<open>NaN\<close> there. The only divisor in the modelled code is
  \<open>maxParanoia\<close>, which the constructor sets to 100 and nothing reassigns.\<close>

fun jdiv :: "jsnum \<Rightarrow> jsnum \<Rightarrow> jsnum" where
  "jdiv (Num a) (Num b) = (if b = 0 then NaN else Num (a / b))"
| "jdiv _ _ = NaN"

fun jlt :: "jsnum \<Rightarrow> jsnum \<Rightarrow> bool" where
  "jlt (Num a) (Num b) = (a < b)"
| "jlt _ _ = False"

fun jgt :: "jsnum \<Rightarrow> jsnum \<Rightarrow> bool" where
  "jgt (Num a) (Num b) = (a > b)"
| "jgt _ _ = False"

fun jge :: "jsnum \<Rightarrow> jsnum \<Rightarrow> bool" where
  "jge (Num a) (Num b) = (a \<ge> b)"
| "jge _ _ = False"

fun Math_max :: "jsnum \<Rightarrow> jsnum \<Rightarrow> jsnum" where
  "Math_max (Num a) (Num b) = Num (max a b)"
| "Math_max _ _ = NaN"

fun Math_min :: "jsnum \<Rightarrow> jsnum \<Rightarrow> jsnum" where
  "Math_min (Num a) (Num b) = Num (min a b)"
| "Math_min _ _ = NaN"

fun isNaN :: "jsnum \<Rightarrow> bool" where
  "isNaN (Num a) = False"
| "isNaN _ = True"

text \<open>\<open>Math.random()\<close> is a global source of numbers in \<open>[0, 1)\<close>. A function of the
  model that draws from it takes the stream of the draws still to come and returns the
  rest of the stream.\<close>

type_synonym rng = "nat \<Rightarrow> real"

definition draw :: "rng \<Rightarrow> real \<times> rng" where
  "draw g = (g 0, \<lambda>n. g (Suc n))"

section \<open>Behaviour metrics (the fields of \<open>player.metrics\<close> that the system reads)\<close>

record Metrics =
  isLookingBack :: bool
  isStationary :: bool
  stationaryTime :: jsnum
  continuousForwardTime :: jsnum
  zoneHistory :: "real list"

section \<open>The environment: \<open>FacilityGenerator\<close>\<close>

record DriftState =
  loopCount :: nat
  heightOffset :: real
  lightDimming :: real
  pillarOffset :: real

text \<open>Scene objects are identified by handles. A chunk is the \<open>THREE.Group\<close> of one
  corridor section: its handle, the z of its centre and the handles of its children.\<close>

record Chunk =
  chunk_id :: nat
  position_z :: real
  children :: "nat list"

text \<open>The mesh of a light fixture, with the one material cloned for it.\<close>

record LightMesh =
  mesh_id :: nat
  mesh_visible :: bool
  emissiveIntensity :: real

text \<open>A point light: \<open>light_parent\<close> is the group it was added to (\<open>None\<close> is
  \<open>null\<close>), \<open>originalIntensity\<close> and \<open>mesh\<close> are its \<open>userData\<close>.\<close>

record Light =
  light_id :: nat
  light_parent :: "nat option"
  intensity :: real
  light_visible :: bool
  originalIntensity :: real
  mesh :: "LightMesh option"

record PillarPos =
  pos_x :: real
  pos_z :: real

text \<open>The mirage sprite: what \<open>showMirage\<close>, \<open>hideMirage\<close> and
  \<open>updateMirageEffect\<close> write.\<close>

record Mirage =
  mirage_visible :: bool
  mirage_opacity :: real
  mirage_x :: real
  mirage_z :: real
  mirage_scale_x :: real

record FacilityGenerator =
  scene :: "nat list"
  chunks :: "Chunk list"
  lights :: "Light list"
  interactables :: "nat list"
  pillarPositions :: "PillarPos list"
  chunkSize :: real
  renderDistance :: real
  zOffset :: real
  forceBlackout :: bool
  drift :: DriftState
  isEndgame :: bool
  stopGeneration :: bool
  fog :: bool
  distantSun :: "nat option"
  introRoom :: "nat option"
  mirageMesh :: Mirage
  nextId :: nat

text \<open>The constructor. The mirage sprite is the first object added to the scene.\<close>

definition newFacilityGenerator :: FacilityGenerator where
  "newFacilityGenerator =
     \<lparr> scene = [0], chunks = [], lights = [], interactables = [], pillarPositions = [],
       chunkSize = 20, renderDistance = 80, zOffset = 0,
       forceBlackout = False,
       drift = \<lparr> loopCount = 0, heightOffset = 0, lightDimming = 0, pillarOffset = 0 \<rparr>,
       isEndgame = False, stopGeneration = False, fog = True, distantSun = None,
       introRoom = None,
       mirageMesh = \<lparr> mirage_visible = True, mirage_opacity = 0, mirage_x = 0, mirage_z = 0,
                      mirage_scale_x = 3 \<rparr>,
       nextId = 1 \<rparr>"

definition setDriftIntensity :: "real \<Rightarrow> FacilityGenerator \<Rightarrow> FacilityGenerator" where
  "setDriftIntensity i e = e\<lparr>drift := (drift e)\<lparr>pillarOffset := i * 1.5\<rparr>\<rparr>"

definition createDistantSun :: "FacilityGenerator \<Rightarrow> FacilityGenerator" where
  "createDistantSun e =
     e\<lparr>scene := scene e @ [nextId e], distantSun := Some (nextId e), nextId := Suc (nextId e)\<rparr>"

definition enterEndgame :: "FacilityGenerator \<Rightarrow> FacilityGenerator" where
  "enterEndgame e =
     (if isEndgame e then e
      else createDistantSun (e\<lparr>isEndgame := True, stopGeneration := True, fog := False\<rparr>))"

section \<open>The mirage\<close>

definition showMirage :: "real \<Rightarrow> FacilityGenerator \<times> rng \<Rightarrow> FacilityGenerator \<times> rng" where
  "showMirage playerZ eg =
     (let e = fst eg; g = snd eg;
          (r1, g1) = draw g;
          dist = 30 + r1 * 20;
          (r2, g2) = draw g1;
          m = (mirageMesh e)\<lparr>mirage_z := playerZ - dist, mirage_x := (r2 - 0.5) * 4,
                              mirage_visible := True, mirage_opacity := 0\<rparr>
      in (e\<lparr>mirageMesh := m\<rparr>, g2))"

definition hideMirage :: "FacilityGenerator \<Rightarrow> FacilityGenerator" where
  "hideMirage e = e\<lparr>mirageMesh := (mirageMesh e)\<lparr>mirage_visible := False, mirage_opacity := 0\<rparr>\<rparr>"

definition updateMirageEffect :: "FacilityGenerator \<times> rng \<Rightarrow> FacilityGenerator \<times> rng" where
  "updateMirageEffect eg =
     (let e = fst eg; g = snd eg
      in if \<not> mirage_visible (mirageMesh e) then (e, g)
         else
           (let (r1, g1) = draw g;
                (r2, g2) = draw g1;
                opacity = (if r1 < 0.7 then r2 * 0.05 else 0.1 + r2 * 0.15);
                (r3, g3) = draw g2;
                (r4, g4) = draw g3;
                m = (mirageMesh e)\<lparr>mirage_opacity := opacity,
                                    mirage_x := mirage_x (mirageMesh e) + (r3 - 0.5) * 0.2,
                                    mirage_scale_x := 3 + (r4 - 0.5)\<rparr>
            in (e\<lparr>mirageMesh := m\<rparr>, g4)))"

section \<open>Chunk synthesis\<close>

text \<open>\<open>THREE.MathUtils.clamp(value, min, max)\<close> of the three.js library is
  \<open>Math.max(min, Math.min(max, value))\<close>.\<close>

definition MathUtils_clamp :: "real \<Rightarrow> real \<Rightarrow> real \<Rightarrow> real" where
  "MathUtils_clamp v lo hi = max lo (min hi v)"

text \<open>The head of \<open>generateCorridorChunk\<close>: the cumulative drift, three draws.\<close>

definition driftNudge :: "rng \<Rightarrow> DriftState \<Rightarrow> DriftState \<times> rng" where
  "driftNudge g d =
     (let d0 = d\<lparr>loopCount := Suc (loopCount d)\<rparr>;
          (r1, g1) = draw g;
          d1 = d0\<lparr>heightOffset := heightOffset d0 + (r1 - 0.5) * 0.1\<rparr>;
          d2 = d1\<lparr>heightOffset := MathUtils_clamp (heightOffset d1) (- 1.0) 1.5\<rparr>;
          (r2, g2) = draw g1;
          d3 = d2\<lparr>lightDimming := lightDimming d2 + (r2 - 0.3) * 0.1\<rparr>;
          d4 = d3\<lparr>lightDimming := MathUtils_clamp (lightDimming d3) (- 0.5) 0.8\<rparr>;
          (r3, g3) = draw g2;
          d5 = d4\<lparr>pillarOffset := pillarOffset d4 + (r3 - 0.5) * 0.2\<rparr>;
          d6 = d5\<lparr>pillarOffset := MathUtils_clamp (pillarOffset d5) (- 1.0) 1.0\<rparr>
      in (d6, g3))"

text \<open>\<open>createPillar\<close>: six draws of jitter, two pillars (the right one a clone of the
  left), their two collision records, the fixture mesh and the point light. It returns the
  group under construction with its new children. The positions and rotations of the meshes
  themselves are rendering data and are not part of the model; the collision records are.\<close>

definition createPillar ::
  "Chunk \<Rightarrow> real \<Rightarrow> real \<Rightarrow> real \<Rightarrow> real \<Rightarrow> FacilityGenerator \<times> rng
     \<Rightarrow> Chunk \<times> FacilityGenerator \<times> rng" where
  "createPillar parentGroup roomWidth roomHeight zPos chunkWorldZ eg =
     (let e = fst eg; g = snd eg;
          (rX1, g1) = draw g;   dX1 = (rX1 - 0.5) * pillarOffset (drift e);
          (rR1, g2) = draw g1;  dRot1 = (rR1 - 0.5) * (pillarOffset (drift e) * 0.5);
          (rX2, g3) = draw g2;  dX2 = (rX2 - 0.5) * pillarOffset (drift e);
          (rR2, g4) = draw g3;  dRot2 = (rR2 - 0.5) * (pillarOffset (drift e) * 0.5);
          (rZ1, g5) = draw g4;  dZ1 = (rZ1 - 0.5) * pillarOffset (drift e);
          (rZ2, g6) = draw g5;  dZ2 = (rZ2 - 0.5) * pillarOffset (drift e);
          leftPillar = nextId e;
          rightPillar = nextId e + 1;
          worldZ1 = (zPos + dZ1) + chunkWorldZ;
          worldZ2 = (zPos + dZ2) + chunkWorldZ;
          lightMesh = \<lparr> mesh_id = nextId e + 2, mesh_visible = True, emissiveIntensity = 2.0 \<rparr>;
          intensity0 = max 0.1 (1.5 - lightDimming (drift e));
          pointLight = \<lparr> light_id = nextId e + 3, light_parent = Some (chunk_id parentGroup),
                         intensity = intensity0, light_visible = True,
                         originalIntensity = intensity0, mesh = Some lightMesh \<rparr>;
          parentGroup' = parentGroup\<lparr>children := children parentGroup
                              @ [leftPillar, rightPillar, mesh_id lightMesh, light_id pointLight]\<rparr>;
          e' = e\<lparr>interactables := interactables e @ [leftPillar, rightPillar],
                 pillarPositions := pillarPositions e @
                    [\<lparr> pos_x = - roomWidth / 2 + 0.5 + dX1, pos_z = worldZ1 \<rparr>,
                     \<lparr> pos_x = roomWidth / 2 - 0.5 + dX2, pos_z = worldZ2 \<rparr>],
                 lights := lights e @ [pointLight],
                 nextId := nextId e + 4\<rparr>
      in (parentGroup', e', g6))"

text \<open>The values of \<open>gZ\<close> that the loop
  \<open>for (let gZ = alignBase; gZ < chunkStartWorld + length; gZ += spacing)\<close> visits, with
  \<open>spacing = 8\<close>.\<close>

function pillarGrid :: "real \<Rightarrow> real \<Rightarrow> real list" where
  "pillarGrid gZ limit = (if gZ < limit then gZ # pillarGrid (gZ + 8) limit else [])"
  by pat_completeness auto
termination
proof (relation "measure (\<lambda>(gZ, limit). nat \<lceil>(limit - gZ) / 8\<rceil>)")
  show "wf (measure (\<lambda>(gZ, limit). nat \<lceil>(limit - gZ) / 8\<rceil>))" by simp
next
  fix gZ limit :: real
  assume lt: "gZ < limit"
  have eq: "(limit - (gZ + 8)) / 8 = (limit - gZ) / 8 - 1" by (simp add: field_simps)
  have pos: "0 < \<lceil>(limit - gZ) / 8\<rceil>" using lt by (simp add: ceiling_less_iff)
  have "\<lceil>(limit - (gZ + 8)) / 8\<rceil> = \<lceil>(limit - gZ) / 8\<rceil> - 1" unfolding eq by simp
  with pos show "((gZ + 8, limit), (gZ, limit)) \<in> measure (\<lambda>(gZ, limit). nat \<lceil>(limit - gZ) / 8\<rceil>)"
    by simp
qed

declare pillarGrid.simps [simp del]

text \<open>The body of that loop, run at each \<open>gZ\<close> in turn.\<close>

fun pillarLoop ::
  "real list \<Rightarrow> real \<Rightarrow> real \<Rightarrow> real \<Rightarrow> Chunk \<times> FacilityGenerator \<times> rng
     \<Rightarrow> Chunk \<times> FacilityGenerator \<times> rng" where
  "pillarLoop [] width height chunkWorldZ ceg = ceg"
| "pillarLoop (gZ # rest) width height chunkWorldZ ceg =
     (let localZ = gZ - chunkWorldZ
      in pillarLoop rest width height chunkWorldZ
           (createPillar (fst ceg) width height localZ chunkWorldZ (snd ceg)))"

text \<open>\<open>generateCorridorChunk\<close>. The group takes the next handle, then the floor, the
  ceiling (a clone of the floor), the left wall and the right wall (a clone of the left).\<close>

definition generateCorridorChunk :: "real \<Rightarrow> FacilityGenerator \<times> rng \<Rightarrow> FacilityGenerator \<times> rng" where
  "generateCorridorChunk zStart eg =
     (let e = fst eg; g = snd eg;
          (d, g1) = driftNudge g (drift e);
          e1 = e\<lparr>drift := d\<rparr>;
          len = chunkSize e1;
          width = 6;
          height = 5 + heightOffset (drift e1);
          floor_id = nextId e1 + 1;
          ceiling_id = nextId e1 + 2;
          leftWall = nextId e1 + 3;
          rightWall = nextId e1 + 4;
          corridor = \<lparr> chunk_id = nextId e1, position_z = 0,
                       children = [floor_id, ceiling_id, leftWall, rightWall] \<rparr>;
          e2 = e1\<lparr>nextId := nextId e1 + 5\<rparr>;
          chunkWorldZ = zStart - len / 2;
          chunkStartWorld = chunkWorldZ - len / 2;
          alignBase = of_int \<lceil>chunkStartWorld / 8\<rceil> * 8;
          (corridor1, e3, g2) =
             pillarLoop (pillarGrid alignBase (chunkStartWorld + len)) width height chunkWorldZ
               (corridor, e2, g1);
          corridor2 = corridor1\<lparr>position_z := zStart - len / 2\<rparr>;
          e4 = e3\<lparr>scene := scene e3 @ [chunk_id corridor2],
                  chunks := chunks e3 @ [corridor2],
                  interactables := interactables e3 @ [leftWall, rightWall]\<rparr>
      in (e4, g2))"


definition createInitialCorridor :: "FacilityGenerator \<times> rng \<Rightarrow> FacilityGenerator \<times> rng" where
  "createInitialCorridor eg =
     (let (e1, g1) = generateCorridorChunk 0 eg;
          e2 = e1\<lparr>zOffset := zOffset e1 - chunkSize e1\<rparr>;
          (e3, g3) = generateCorridorChunk (zOffset e2) (e2, g1);
          e4 = e3\<lparr>zOffset := zOffset e3 - chunkSize e3\<rparr>
      in (e4, g3))"

section \<open>Eviction\<close>

definition removeLightsInChunk :: "Chunk \<Rightarrow> FacilityGenerator \<Rightarrow> FacilityGenerator" where
  "removeLightsInChunk chunk e = e\<lparr>lights := filter (\<lambda>l. light_parent l \<noteq> None) (lights e)\<rparr>"

text \<open>\<open>removeChunk\<close>. \<open>scene.remove(chunk)\<close> takes the group out of the scene's children
  (and clears the parent of the group, not of the group's own children). Each child is
  then taken out of \<open>interactables\<close> at its first index, if it has one.\<close>

definition removeChunk :: "Chunk \<Rightarrow> FacilityGenerator \<Rightarrow> FacilityGenerator" where
  "removeChunk chunk e =
     (let e1 = e\<lparr>scene := remove1 (chunk_id chunk) (scene e)\<rparr>;
          e2 = removeLightsInChunk chunk e1;
          e3 = e2\<lparr>interactables := foldl (\<lambda>xs child. remove1 child xs) (interactables e2) (children chunk)\<rparr>;
          chunkZ = position_z chunk
      in e3\<lparr>pillarPositions := filter (\<lambda>p. pos_z p < chunkZ + 20) (pillarPositions e3)\<rparr>)"

text \<open>\<open>cleanupChunks\<close>: the loop runs \<open>i\<close> from \<open>chunks.length - 1\<close> down to \<open>0\<close>;
  \<open>cleanupLoop (Suc i)\<close> is the iteration at index \<open>i\<close>. The index stays below the
  length of the list: a splice at \<open>i\<close> leaves the indices below \<open>i\<close> alone.\<close>

fun cleanupLoop :: "nat \<Rightarrow> real \<Rightarrow> FacilityGenerator \<Rightarrow> FacilityGenerator" where
  "cleanupLoop 0 cleanThreshold e = e"
| "cleanupLoop (Suc i) cleanThreshold e =
     (let chunk = chunks e ! i
      in if position_z chunk > cleanThreshold
         then (let e1 = removeChunk chunk e;
                   e2 = e1\<lparr>chunks := take i (chunks e1) @ drop (Suc i) (chunks e1)\<rparr>
               in cleanupLoop i cleanThreshold e2)
         else cleanupLoop i cleanThreshold e)"

definition cleanupChunks :: "real \<Rightarrow> FacilityGenerator \<Rightarrow> FacilityGenerator" where
  "cleanupChunks playerZ e = cleanupLoop (length (chunks e)) (playerZ + 40) e"

section \<open>Light flicker\<close>

text \<open>One light of \<open>flickerLights\<close>: a draw decides whether it is touched, a second one
  between black and dimmed, a third one (only then) the multiplier.\<close>

definition flickerLight :: "Light \<Rightarrow> rng \<Rightarrow> Light \<times> rng" where
  "flickerLight light g =
     (let (r, g1) = draw g
      in if r < 0.3 then
           (let (r2, g2) = draw g1;
                (mult, g3) = (if r2 < 0.5 then (0.0, g2)
                              else (let (r3, g3) = draw g2 in (0.1 + r3 * 1.1, g3)));
                light1 = light\<lparr>intensity := originalIntensity light * mult\<rparr>;
                light2 = (case mesh light1 of
                            Some m \<Rightarrow>
                              (if mult < 0.05
                               then light1\<lparr>mesh := Some (m\<lparr>mesh_visible := False, emissiveIntensity := 0\<rparr>)\<rparr>
                               else light1\<lparr>mesh := Some (m\<lparr>mesh_visible := True, emissiveIntensity := 2.0 * mult\<rparr>)\<rparr>)
                          | None \<Rightarrow> light1)
            in (light2, g3))
         else (light, g1))"

fun flickerEach :: "Light list \<Rightarrow> rng \<Rightarrow> Light list \<times> rng" where
  "flickerEach [] g = ([], g)"
| "flickerEach (light # rest) g =
     (let (light', g1) = flickerLight light g;
          (rest', g2) = flickerEach rest g1
      in (light' # rest', g2))"

definition flickerLights :: "FacilityGenerator \<times> rng \<Rightarrow> FacilityGenerator \<times> rng" where
  "flickerLights eg =
     (let e = fst eg; g = snd eg
      in if forceBlackout e then (e, g)
         else (let (ls, g1) = flickerEach (lights e) g in (e\<lparr>lights := ls\<rparr>, g1)))"

section \<open>The paranoia estimator and event scheduler: \<open>FacilitySystem\<close>\<close>

record EventState =
  active :: bool
  timer :: jsnum
  duration :: jsnum

text \<open>\<open>cameraRotationZ\<close> is \<open>player.camera.rotation.z\<close>, which the camera twist
  writes. \<open>paranoia\<close> is the property that \<open>GameClient.enterCorridor\<close> assigns; the
  constructor does not create it. \<open>maxParanoiaTimer\<close>, \<open>lastLogTime\<close> and
  \<open>endgameTriggered\<close> are not created by the constructor either: they start
  \<open>undefined\<close> (for the flag: falsy). \<open>neuro\<close> is the status element's text and class,
  \<open>None\<close> when the page has no such element. \<open>endgameFirings\<close> counts the
  executions of the block that triggers the endgame, and \<open>displayed\<close> lists the texts
  handed to \<open>logMessage\<close>, oldest first: they record effects, the code has no such
  fields.\<close>

record FacilitySystem =
  environment :: FacilityGenerator
  paranoiaLevel :: jsnum
  maxParanoia :: jsnum
  paranoia :: jsnum
  lastMessageTime :: jsnum
  baseMessageCooldown :: jsnum
  cameraInversion :: EventState
  cameraDirection :: jsnum
  cameraRotationZ :: jsnum
  blackout :: EventState
  maxParanoiaTimer :: jsnum
  lastLogTime :: jsnum
  endgameTriggered :: bool
  recentMessages :: "string option list"
  neuro :: "(string \<times> string) option"
  endgameFirings :: nat
  displayed :: "string option list"

definition newFacilitySystem :: "FacilityGenerator \<Rightarrow> FacilitySystem" where
  "newFacilitySystem e =
     \<lparr> environment = e, paranoiaLevel = Num 0, maxParanoia = Num 100, paranoia = Undefined,
       lastMessageTime = Num 0, baseMessageCooldown = Num 15,
       cameraInversion = \<lparr> active = False, timer = Num 0, duration = Num 0.5 \<rparr>,
       cameraDirection = Undefined, cameraRotationZ = Num 0,
       blackout = \<lparr> active = False, timer = Num 0, duration = Num 5 \<rparr>,
       maxParanoiaTimer = Undefined, lastLogTime = Undefined, endgameTriggered = False,
       recentMessages = [], neuro = Some ('''', ''''),
       endgameFirings = 0, displayed = [] \<rparr>"

definition getParanoiaFactor :: "FacilitySystem \<Rightarrow> jsnum" where
  "getParanoiaFactor s = jdiv (paranoiaLevel s) (maxParanoia s)"

definition updateStatus :: "string \<Rightarrow> string \<Rightarrow> FacilitySystem \<Rightarrow> FacilitySystem" where
  "updateStatus txt cls s = (if neuro s \<noteq> None then s\<lparr>neuro := Some (txt, cls)\<rparr> else s)"

text \<open>\<open>monitorParanoia\<close>, in the order of the source: the three rate rules, the clamp,
  the status tier, the endgame hold.\<close>

definition accrue :: "Metrics \<Rightarrow> jsnum \<Rightarrow> jsnum \<Rightarrow> jsnum" where
  "accrue p delta l0 =
     (let l1 = (if isLookingBack p then jadd l0 (jmul delta (Num 20)) else l0);
          l2 = (if jgt (continuousForwardTime p) (Num 3) then jadd l1 (jmul delta (Num 1)) else l1);
          l3 = (if \<not> isLookingBack p then
                  (if isStationary p then jsub l2 (jmul delta (Num 0.5))
                   else if jlt (continuousForwardTime p) (Num 3) then jsub l2 (jmul delta (Num 0.5))
                   else l2)
                else l2)
      in l3)"

definition clampLevel :: "FacilitySystem \<Rightarrow> jsnum \<Rightarrow> jsnum" where
  "clampLevel s l = Math_max (Num 0) (Math_min l (maxParanoia s))"

definition statusOf :: "jsnum \<Rightarrow> string \<times> string" where
  "statusOf l =
     (if jlt l (Num 20) then (''STABLE'', ''status-ok'')
      else if jlt l (Num 40) then (''UNSETTLED'', ''status-ok'')
      else if jlt l (Num 60) then (''AGITATED'', ''status-warn'')
      else if jlt l (Num 80) then (''HYSTERIA'', ''status-warn'')
      else (''PSYCHOSIS'', ''status-err''))"

text \<open>The diagnostic line printed every five seconds of hold: only \<open>_lastLogTime\<close> is
  state.\<close>

definition holdLog :: "FacilitySystem \<Rightarrow> FacilitySystem" where
  "holdLog s =
     (case maxParanoiaTimer s of
        Num t \<Rightarrow>
          (if \<lfloor>t\<rfloor> mod 5 = 0 \<and> lastLogTime s \<noteq> Num (of_int \<lfloor>t\<rfloor>)
           then s\<lparr>lastLogTime := Num (of_int \<lfloor>t\<rfloor>)\<rparr> else s)
      | _ \<Rightarrow> s)"

definition fireEndgame :: "FacilitySystem \<Rightarrow> FacilitySystem" where
  "fireEndgame s =
     (let s1 = s\<lparr>blackout := (blackout s)\<lparr>active := False\<rparr>\<rparr>;
          s2 = s1\<lparr>environment := (environment s1)\<lparr>forceBlackout := False\<rparr>\<rparr>;
          s3 = s2\<lparr>cameraInversion := (cameraInversion s2)\<lparr>active := False\<rparr>\<rparr>;
          s4 = s3\<lparr>endgameTriggered := True, endgameFirings := Suc (endgameFirings s3)\<rparr>
      in s4\<lparr>environment := enterEndgame (environment s4)\<rparr>)"

definition endgameHold :: "jsnum \<Rightarrow> FacilitySystem \<Rightarrow> FacilitySystem" where
  "endgameHold delta s =
     (if jge (paranoiaLevel s) (Num 99) then
        (let s1 = (if maxParanoiaTimer s = Undefined then s\<lparr>maxParanoiaTimer := Num 0\<rparr> else s);
             s2 = s1\<lparr>maxParanoiaTimer := jadd (maxParanoiaTimer s1) delta\<rparr>;
             s3 = holdLog s2
         in if jgt (maxParanoiaTimer s3) (Num 20) \<and> \<not> endgameTriggered s3
            then fireEndgame s3 else s3)
      else
        (if jgt (maxParanoiaTimer s) (Num 0)
         then s\<lparr>maxParanoiaTimer := jsub (maxParanoiaTimer s) (jmul delta (Num 0.5))\<rparr>
         else s))"

definition updateLevel :: "Metrics \<Rightarrow> jsnum \<Rightarrow> FacilitySystem \<Rightarrow> FacilitySystem" where
  "updateLevel p delta s =
     (let s1 = s\<lparr>paranoiaLevel := clampLevel s (accrue p delta (paranoiaLevel s))\<rparr>;
          (statusText, statusClass) = statusOf (paranoiaLevel s1)
      in updateStatus statusText statusClass s1)"

definition monitorParanoia :: "Metrics \<Rightarrow> jsnum \<Rightarrow> FacilitySystem \<Rightarrow> FacilitySystem" where
  "monitorParanoia p delta s = endgameHold delta (updateLevel p delta s)"

text \<open>The block of \<open>update\<close> that drives the environmental drift from the paranoia
  factor: \<open>driftIntensity\<close> starts at 0 and is reassigned only when \<open>pFactor > 0.5\<close>,
  which is false for \<open>NaN\<close>, so the value handed over is always a number.\<close>

definition driftIntensityOf :: "jsnum \<Rightarrow> real" where
  "driftIntensityOf pFactor =
     (case pFactor of
        Num f \<Rightarrow> (if f > 0.5 then (f - 0.5) * 2.0 else 0)
      | _ \<Rightarrow> 0)"

definition driveEnvironmentalDrift :: "jsnum \<Rightarrow> FacilitySystem \<Rightarrow> FacilitySystem" where
  "driveEnvironmentalDrift pFactor s =
     s\<lparr>environment := setDriftIntensity (driftIntensityOf pFactor) (environment s)\<rparr>"

text \<open>The guard that opens \<open>FacilityGenerator.update\<close> and
  \<open>FacilityGenerator.updateIntroTick\<close>:
  \<open>if (delta === undefined || isNaN(delta)) delta = 0.016\<close>.\<close>

definition sanitizeDelta :: "jsnum \<Rightarrow> jsnum" where
  "sanitizeDelta delta = (if delta = Undefined \<or> isNaN delta then Num 0.016 else delta)"

section \<open>Contextual messaging\<close>

definition messagePools :: "string \<rightharpoonup> string list" where
  "messagePools = map_of
     [(''stationary'',
         [''WHY HAVE YOU STOPPED?'', ''CONTINUE MOVING'', ''CAN YOU HEAR IT?'',
          ''YOU ARE BEING WATCHED'']),
      (''lookBack'',
         [''THERE IS NOTHING BEHIND YOU'', ''LOOKING BACK IS UNNECESSARY'',
          ''WHY DO YOU KEEP CHECKING?'', ''DON'' @ [CHR 0x27] @ ''T LOOK BACK'', ''YOU SEEM NERVOUS'']),
      (''continuousMove'',
         [''KEEP WALKING'', ''CONTINUE MOVING'', ''DO NOT STOP'', ''YOU ARE MAKING PROGRESS'',
          ''THE CORRIDOR CONTINUES'']),
      (''zoneReentry'',
         [''THIS PLACE REMEMBERS YOU'', ''HAVE YOU BEEN HERE BEFORE?'', ''YOU CANNOT GO BACK'']),
      (''highParanoia'',
         [''THEY KNOW YOU KNOW'', ''DONT TURN AROUND'', ''IT IS GETTING CLOSER'', ''RUN'']),
      (''contradiction'',
         [''IT WAS A LIE'', ''THAT WAS FALSE''])]"

text \<open>\<open>logMessage\<close> replaces the content of the overlay by one entry; the model keeps the
  sequence of the texts shown. The styling of the entry is not modelled.\<close>

definition logMessage :: "string option \<Rightarrow> jsnum \<Rightarrow> FacilitySystem \<Rightarrow> FacilitySystem" where
  "logMessage txt pFactor s = s\<lparr>displayed := displayed s @ [txt]\<rparr>"

text \<open>\<open>pool[i]\<close>: \<open>undefined\<close> (\<open>None\<close>) outside the array.\<close>

definition poolAt :: "string list \<Rightarrow> int \<Rightarrow> string option" where
  "poolAt pool i = (if 0 \<le> i \<and> nat i < length pool then Some (pool ! nat i) else None)"

text \<open>The loop \<open>for (let i = 0; i < 3; i++)\<close> of \<open>triggerMessage\<close>, with the number of
  iterations left: it stops at the first draw that is not among the recent messages, and
  otherwise ends with the last draw.\<close>

fun pickMessage ::
  "nat \<Rightarrow> string list \<Rightarrow> string option list \<Rightarrow> string option \<Rightarrow> rng \<Rightarrow> string option \<times> rng" where
  "pickMessage 0 pool recent msg g = (msg, g)"
| "pickMessage (Suc n) pool recent msg g =
     (let (r, g1) = draw g;
          msg1 = poolAt pool \<lfloor>r * real (length pool)\<rfloor>
      in if msg1 \<notin> set recent then (msg1, g1)
         else pickMessage n pool recent msg1 g1)"

definition triggerMessage ::
  "jsnum \<Rightarrow> string \<Rightarrow> jsnum \<Rightarrow> FacilitySystem \<times> rng \<Rightarrow> FacilitySystem \<times> rng" where
  "triggerMessage time poolName pFactor sg =
     (let s = fst sg; g = snd sg;
          s1 = s\<lparr>lastMessageTime := time\<rparr>;
          (r, g1) = draw g;
          poolName1 = (if jlt (Num r) (jadd (Num 0.01) (jmul pFactor (Num 0.2)))
                       then ''contradiction'' else poolName)
      in case messagePools poolName1 of
           Some pool \<Rightarrow>
             (let (msg, g2) = pickMessage 3 pool (recentMessages s1) (Some '''') g1;
                  s2 = s1\<lparr>recentMessages := recentMessages s1 @ [msg]\<rparr>;
                  s3 = (if length (recentMessages s2) > 5
                        then s2\<lparr>recentMessages := tl (recentMessages s2)\<rparr> else s2)
              in (logMessage msg pFactor s3, g2))
         | None \<Rightarrow> (s1, g1))"

text \<open>\<open>cond && Math.random() < p\<close>: the draw is made only when \<open>cond\<close> holds.\<close>

definition chance :: "bool \<Rightarrow> real \<Rightarrow> rng \<Rightarrow> bool \<times> rng" where
  "chance cond p g = (if cond then (let (r, g1) = draw g in (r < p, g1)) else (False, g))"

definition currentCooldown :: "FacilitySystem \<Rightarrow> jsnum \<Rightarrow> jsnum" where
  "currentCooldown s pFactor =
     Math_max (Num 8.0) (jsub (baseMessageCooldown s) (jmul pFactor (Num 7.0)))"

text \<open>The choice of the pool in \<open>checkMessaging\<close>; \<open>None\<close> is \<open>null\<close>.\<close>

definition selectPool :: "Metrics \<Rightarrow> jsnum \<Rightarrow> rng \<Rightarrow> string option \<times> rng" where
  "selectPool p pFactor g =
     (let (high, g1) = chance (jgt pFactor (Num 0.7)) 0.4 g;
          sel0 = (if high then Some ''highParanoia'' else None)
      in if sel0 = None then
           (let (sel1, g2) =
                  (if length (zoneHistory p) > 15 then
                     (let currentZone = zoneHistory p ! (length (zoneHistory p) - 1);
                          oldHistory = take (length (zoneHistory p) - 10) (zoneHistory p);
                          (re, g') = chance (currentZone \<in> set oldHistory) 0.1 g1
                      in (if re then Some ''zoneReentry'' else sel0, g'))
                   else (sel0, g1));
                (lb, g3) = chance (sel1 = None \<and> isLookingBack p) 0.3 g2;
                sel2 = (if lb then Some ''lookBack'' else sel1);
                (st, g4) = chance (sel2 = None \<and> isStationary p \<and> jgt (stationaryTime p) (Num 5.0)) 0.2 g3;
                sel3 = (if st then Some ''stationary'' else sel2);
                (cm, g5) = chance (sel3 = None \<and> jgt (continuousForwardTime p) (Num 15.0)) 0.2 g4;
                sel4 = (if cm then Some ''continuousMove'' else sel3)
            in (sel4, g5))
         else (sel0, g1))"

definition checkMessaging ::
  "Metrics \<Rightarrow> jsnum \<Rightarrow> jsnum \<Rightarrow> FacilitySystem \<times> rng \<Rightarrow> FacilitySystem \<times> rng" where
  "checkMessaging p time pFactor sg =
     (let s = fst sg; g = snd sg
      in if endgameTriggered s then (s, g)
         else if jlt (jsub time (lastMessageTime s)) (currentCooldown s pFactor) then (s, g)
         else (let (selectedPool, g1) = selectPool p pFactor g
               in case selectedPool of
                    Some poolName \<Rightarrow> triggerMessage time poolName pFactor (s, g1)
                  | None \<Rightarrow> (s, g1)))"

section \<open>Random events\<close>

fun Math_sin :: "jsnum \<Rightarrow> jsnum" where
  "Math_sin (Num a) = Num (sin a)"
| "Math_sin _ = NaN"

text \<open>The branch of \<open>handleRandomEvents\<close> taken while a blackout is active; the method
  returns after it. \<open>playerZ\<close> is the z of the player's position.\<close>

definition blackoutTick :: "real \<Rightarrow> jsnum \<Rightarrow> FacilitySystem \<times> rng \<Rightarrow> FacilitySystem \<times> rng" where
  "blackoutTick playerZ delta sg =
     (let s = fst sg; g = snd sg;
          s1 = s\<lparr>blackout := (blackout s)\<lparr>timer := jadd (timer (blackout s)) delta\<rparr>\<rparr>;
          e1 = (environment s1)\<lparr>forceBlackout := True\<rparr>;
          (e2, g2) = (if jlt (timer (blackout s1)) (Num 0.1) then showMirage playerZ (e1, g)
                      else if jgt (timer (blackout s1)) (Num 0.8) then (hideMirage e1, g)
                      else (e1, g));
          (e3, g3) = updateMirageEffect (e2, g2);
          s2 = s1\<lparr>environment := e3\<rparr>
      in if jgt (timer (blackout s2)) (duration (blackout s2))
         then (s2\<lparr>blackout := (blackout s2)\<lparr>active := False\<rparr>,
                  environment := hideMirage ((environment s2)\<lparr>forceBlackout := False\<rparr>)\<rparr>, g3)
         else (s2, g3))"

text \<open>The camera twist, the last part of \<open>handleRandomEvents\<close>.\<close>

definition cameraTwist :: "jsnum \<Rightarrow> jsnum \<Rightarrow> FacilitySystem \<times> rng \<Rightarrow> FacilitySystem \<times> rng" where
  "cameraTwist delta pFactor sg =
     (let s = fst sg; g = snd sg
      in if jgt pFactor (Num 0.95) then
           (if active (cameraInversion s) then
              (let ci = (cameraInversion s)\<lparr>timer := jadd (timer (cameraInversion s)) delta\<rparr>;
                   angle = (if jlt pFactor (Num 0.5)
                            then jadd (Num (pi * 0.02)) (jmul pFactor (Num 0.1))
                            else jadd (Num (pi * 0.1)) (jmul (jsub pFactor (Num 0.5)) (Num 0.4)));
                   currentAngle = jmul angle (cameraDirection s);
                   rot = (if jgt (duration ci) (Num 1.0)
                          then (let progress = jdiv (timer ci) (duration ci);
                                    wave = Math_sin (jmul progress (Num pi))
                                in jmul currentAngle wave)
                          else currentAngle);
                   s1 = s\<lparr>cameraInversion := ci, cameraRotationZ := rot\<rparr>
               in if jgt (timer ci) (duration ci)
                  then (s1\<lparr>cameraInversion := ci\<lparr>active := False\<rparr>, cameraRotationZ := Num 0\<rparr>, g)
                  else (s1, g))
            else
              (let invertChance = jadd (Num 0.0001) (jmul pFactor (Num 0.002));
                   (r, g1) = draw g
               in if jlt (Num r) invertChance then
                    (let ci = (cameraInversion s)\<lparr>active := True, timer := Num 0\<rparr>;
                         (rd, g2) = draw g1;
                         dir = (if rd < 0.5 then Num 1 else Num (- 1));
                         (rt, g3) = draw g2;
                         dur = (if jlt pFactor (Num 0.5) then Num (1.0 + rt * 2.0)
                                else jadd (Num 0.2) (jmul (Num rt) (jmul pFactor (Num 4.0))))
                     in (s\<lparr>cameraInversion := ci\<lparr>duration := dur\<rparr>, cameraDirection := dir\<rparr>, g3))
                  else (s, g1)))
         else (s, g))"

text \<open>\<open>handleRandomEvents\<close>. \<open>checkStateChanges\<close> has an empty body (its code is
  commented out) and is left out.\<close>

definition handleRandomEvents ::
  "real \<Rightarrow> jsnum \<Rightarrow> jsnum \<Rightarrow> jsnum \<Rightarrow> FacilitySystem \<times> rng \<Rightarrow> FacilitySystem \<times> rng" where
  "handleRandomEvents playerZ time delta pFactor sg =
     (let s = fst sg; g = snd sg
      in if endgameTriggered s then (s, g)
         else if jlt pFactor (Num 0.1) then (s, g)
         else if active (blackout s) then blackoutTick playerZ delta (s, g)
         else
           (let (s1, g1) =
                  (if jgt pFactor (Num 0.95) then
                     (let (r, g') = draw g
                      in if r < 0.00025
                         then (s\<lparr>blackout := (blackout s)\<lparr>active := True, timer := Num 0\<rparr>\<rparr>, g')
                         else (s, g'))
                   else (s, g));
                flickerChance = jmul (jadd (Num 0.0005) (jmul pFactor (Num 0.05))) (Num 0.5);
                (r2, g2) = draw g1;
                (s2, g3) = (if jlt (Num r2) flickerChance
                            then (let (e, g') = flickerLights (environment s1, g2)
                                  in (s1\<lparr>environment := e\<rparr>, g'))
                            else (s1, g2))
            in cameraTwist delta pFactor (s2, g3)))"

text \<open>\<open>update\<close>, the tick of the system: \<open>p\<close> is \<open>player.metrics\<close> and
  \<open>playerZ\<close> the player's z at the time of the call.\<close>

definition update ::
  "Metrics \<Rightarrow> real \<Rightarrow> jsnum \<Rightarrow> jsnum \<Rightarrow> FacilitySystem \<times> rng \<Rightarrow> FacilitySystem \<times> rng" where
  "update p playerZ time delta sg =
     (let s = fst sg; g = snd sg;
          s1 = monitorParanoia p delta s;
          pFactor = getParanoiaFactor s1;
          s2 = driveEnvironmentalDrift pFactor s1;
          sg3 = checkMessaging p time pFactor (s2, g)
      in handleRandomEvents playerZ time delta pFactor sg3)"

section \<open>The zone switch of \<open>GameClient\<close>\<close>

datatype Zone = INTRO | CORRIDOR

text \<open>The game client: the zone, the system (whose \<open>environment\<close> is the client's
  generator: one object, two references), and what \<open>enterCorridor\<close> touches of the
  audio: the ticking clock of the intro room and the background music.
  \<open>fadeInMusic\<close> only arms an interval timer.\<close>

record GameClient =
  currentZone :: Zone
  system :: FacilitySystem
  clockPlaying :: bool
  musicStarted :: bool
  musicPlaying :: bool
  musicTime :: real
  musicVolume :: real
  musicFading :: bool









section \<open>Runs\<close>

text \<open>What happens to the system and its environment over a session, as a sequence of
  calls: the system's \<open>update\<close> (once per frame in the corridor), the synthesis of a
  chunk and the eviction. The generator's calls act on the environment that the system
  holds.\<close>

datatype Op =
    SystemUpdate Metrics real jsnum jsnum
  | GenerateChunk real
  | CleanupChunks real

fun step :: "Op \<Rightarrow> FacilitySystem \<times> rng \<Rightarrow> FacilitySystem \<times> rng" where
  "step (SystemUpdate p playerZ time delta) sg = update p playerZ time delta sg"
| "step (GenerateChunk zStart) sg =
     (let (e, g1) = generateCorridorChunk zStart (environment (fst sg), snd sg)
      in ((fst sg)\<lparr>environment := e\<rparr>, g1))"
| "step (CleanupChunks playerZ) sg =
     ((fst sg)\<lparr>environment := cleanupChunks playerZ (environment (fst sg))\<rparr>, snd sg)"

fun run :: "Op list \<Rightarrow> FacilitySystem \<times> rng \<Rightarrow> FacilitySystem \<times> rng" where
  "run [] sg = sg"
| "run (op # ops) sg = run ops (step op sg)"

text \<open>A sequence of calls of \<open>checkMessaging\<close>, each with the metrics, the time and the
  paranoia factor of its frame.\<close>

fun checkAll :: "(Metrics \<times> real \<times> real) list \<Rightarrow> FacilitySystem \<times> rng \<Rightarrow> FacilitySystem \<times> rng" where
  "checkAll [] sg = sg"
| "checkAll ((p, t, f) # rest) sg = checkAll rest (checkMessaging p (Num t) (Num f) sg)"




section \<open>Sample inputs\<close>

definition freshSystem :: FacilitySystem where
  "freshSystem = newFacilitySystem newFacilityGenerator"

definition halves :: rng where
  "halves = (\<lambda>n. 1 / 2)"

definition zeros :: rng where
  "zeros = (\<lambda>n. 0)"

definition lookingBack :: Metrics where
  "lookingBack = \<lparr> isLookingBack = True, isStationary = False, stationaryTime = Num 0,
                    continuousForwardTime = Num 0, zoneHistory = [] \<rparr>"

definition standingStill :: Metrics where
  "standingStill = \<lparr> isLookingBack = False, isStationary = True, stationaryTime = Num 6,
                      continuousForwardTime = Num 0, zoneHistory = [] \<rparr>"

text \<open>The generator after \<open>createInitialCorridor\<close>, with the blackout flag set.\<close>

definition blackedOut :: FacilityGenerator where
  "blackedOut = (fst (createInitialCorridor (newFacilityGenerator, halves)))\<lparr>forceBlackout := True\<rparr>"

text \<open>A system that has held the maximum for 20 seconds while a blackout and a camera
  twist are running.\<close>

definition holding :: FacilitySystem where
  "holding =
     freshSystem\<lparr>paranoiaLevel := Num 100, maxParanoiaTimer := Num 20,
                  blackout := \<lparr> active = True, timer = Num 1, duration = Num 5 \<rparr>,
                  cameraInversion := \<lparr> active = True, timer = Num 0, duration = Num 0.5 \<rparr>,
                  environment := newFacilityGenerator\<lparr>forceBlackout := True\<rparr>\<rparr>"


section \<open>Range of the paranoia level\<close>

lemma accrue_Num:
  "accrue p (Num dt) (Num l) =
     Num (l + (if isLookingBack p then 20 * dt else 0)
            + (if jgt (continuousForwardTime p) (Num 3) then 1 * dt else 0)
            - (if \<not> isLookingBack p \<and> (isStationary p \<or> jlt (continuousForwardTime p) (Num 3))
               then 0.5 * dt else 0))"
  by (simp add: accrue_def Let_def)

lemma updateLevel_fields [simp]:
  "paranoiaLevel (updateLevel p delta s) = clampLevel s (accrue p delta (paranoiaLevel s))"
  "maxParanoia (updateLevel p delta s) = maxParanoia s"
  "maxParanoiaTimer (updateLevel p delta s) = maxParanoiaTimer s"
  "endgameTriggered (updateLevel p delta s) = endgameTriggered s"
  "endgameFirings (updateLevel p delta s) = endgameFirings s"
  "environment (updateLevel p delta s) = environment s"
  "lastMessageTime (updateLevel p delta s) = lastMessageTime s"
  "baseMessageCooldown (updateLevel p delta s) = baseMessageCooldown s"
  "displayed (updateLevel p delta s) = displayed s"
  by (simp_all add: updateLevel_def updateStatus_def Let_def split: prod.splits)

lemma holdLog_fields [simp]:
  "maxParanoiaTimer (holdLog s) = maxParanoiaTimer s"
  "endgameTriggered (holdLog s) = endgameTriggered s"
  "endgameFirings (holdLog s) = endgameFirings s"
  "blackout (holdLog s) = blackout s"
  "cameraInversion (holdLog s) = cameraInversion s"
  "environment (holdLog s) = environment s"
  "paranoiaLevel (holdLog s) = paranoiaLevel s"
  "maxParanoia (holdLog s) = maxParanoia s"
  "lastMessageTime (holdLog s) = lastMessageTime s"
  "baseMessageCooldown (holdLog s) = baseMessageCooldown s"
  "displayed (holdLog s) = displayed s"
  by (simp_all add: holdLog_def split: jsnum.splits)

lemma enterEndgame_fields [simp]:
  "isEndgame (enterEndgame e)"
  "forceBlackout (enterEndgame e) = forceBlackout e"
  "drift (enterEndgame e) = drift e"
  by (simp_all add: enterEndgame_def createDistantSun_def)

lemma fireEndgame_fields [simp]:
  "endgameTriggered (fireEndgame s)"
  "endgameFirings (fireEndgame s) = Suc (endgameFirings s)"
  "\<not> active (blackout (fireEndgame s))"
  "\<not> active (cameraInversion (fireEndgame s))"
  "\<not> forceBlackout (environment (fireEndgame s))"
  "isEndgame (environment (fireEndgame s))"
  "drift (environment (fireEndgame s)) = drift (environment s)"
  "maxParanoiaTimer (fireEndgame s) = maxParanoiaTimer s"
  "paranoiaLevel (fireEndgame s) = paranoiaLevel s"
  "maxParanoia (fireEndgame s) = maxParanoia s"
  "lastMessageTime (fireEndgame s) = lastMessageTime s"
  "baseMessageCooldown (fireEndgame s) = baseMessageCooldown s"
  "displayed (fireEndgame s) = displayed s"
  by (simp_all add: fireEndgame_def Let_def)

lemma endgameHold_fields [simp]:
  "paranoiaLevel (endgameHold delta s) = paranoiaLevel s"
  "maxParanoia (endgameHold delta s) = maxParanoia s"
  "drift (environment (endgameHold delta s)) = drift (environment s)"
  "lastMessageTime (endgameHold delta s) = lastMessageTime s"
  "baseMessageCooldown (endgameHold delta s) = baseMessageCooldown s"
  "displayed (endgameHold delta s) = displayed s"
  by (simp_all add: endgameHold_def Let_def)

lemma monitorParanoia_level:
  "paranoiaLevel (monitorParanoia p delta s) = clampLevel s (accrue p delta (paranoiaLevel s))"
  by (simp add: monitorParanoia_def)

lemma monitorParanoia_max: "maxParanoia (monitorParanoia p delta s) = maxParanoia s"
  by (simp add: monitorParanoia_def)

text \<open>
  \<^bold>\<open>C1.\<close> After one call of \<open>monitorParanoia\<close> with a time step \<open>dt \<ge> 0\<close>, on a state
  whose level is a number and whose \<open>maxParanoia\<close> is a number \<open>m \<ge> 0\<close> (the constructor
  sets 100), the paranoia level is a number between 0 and \<open>maxParanoia\<close>, whatever the
  behaviour metrics are.
\<close>

theorem paranoia_level_in_range:
  assumes "0 \<le> dt" and "paranoiaLevel s = Num l" and "maxParanoia s = Num m" and "0 \<le> m"
  shows "\<exists>l'. paranoiaLevel (monitorParanoia p (Num dt) s) = Num l' \<and> 0 \<le> l' \<and> l' \<le> m"
  using assms by (simp add: monitorParanoia_level accrue_Num clampLevel_def)

theorem paranoia_level_in_range_witness:
  "(0::real) \<le> 1 \<and> paranoiaLevel freshSystem = Num 0 \<and> maxParanoia freshSystem = Num 100
   \<and> (\<exists>l'. paranoiaLevel (monitorParanoia lookingBack (Num 1) freshSystem) = Num l'
            \<and> 0 \<le> l' \<and> l' \<le> 100)"
  using paranoia_level_in_range [of 1 freshSystem 0 100 lookingBack]
  by (simp add: freshSystem_def newFacilitySystem_def)

section \<open>Accrual and decay rates\<close>

text \<open>
  \<^bold>\<open>C3.\<close> In one call of \<open>monitorParanoia\<close> with time step \<open>dt\<close>, the level before the
  final clamp is the old level, plus \<open>20 * dt\<close> if the player is looking back, plus
  \<open>1 * dt\<close> if \<open>continuousForwardTime > 3\<close>, minus \<open>0.5 * dt\<close> if the player is not looking
  back and is stationary or has \<open>continuousForwardTime < 3\<close>; the new level is the clamp
  of that value.
\<close>

theorem paranoia_rates:
  assumes "paranoiaLevel s = Num l" and "continuousForwardTime p = Num c"
  shows "paranoiaLevel (monitorParanoia p (Num dt) s) =
           clampLevel s (Num (l + (if isLookingBack p then 20 * dt else 0)
                                + (if c > 3 then 1 * dt else 0)
                                - (if \<not> isLookingBack p \<and> (isStationary p \<or> c < 3)
                                   then 0.5 * dt else 0)))"
  using assms by (simp add: monitorParanoia_level accrue_Num)

theorem paranoia_rates_witness:
  "paranoiaLevel freshSystem = Num 0 \<and> continuousForwardTime lookingBack = Num 0
   \<and> paranoiaLevel (monitorParanoia lookingBack (Num 1) freshSystem) = Num 20"
  using paranoia_rates [of freshSystem 0 lookingBack 0 1]
  by (simp add: freshSystem_def newFacilitySystem_def lookingBack_def clampLevel_def)

section \<open>An invalid frame delta\<close>

lemma sanitizeDelta_number: "\<not> isNaN (sanitizeDelta delta)"
  by (cases delta) (simp_all add: sanitizeDelta_def)

text \<open>
  \<^bold>\<open>C8.\<close> The generator's \<open>update\<close> replaces an \<open>undefined\<close> or \<open>NaN\<close> delta by
  0.016 (\<open>sanitizeDelta_number\<close>); \<open>monitorParanoia\<close> has no such guard. On the fresh
  system, with the player looking back, one call with \<open>delta = NaN\<close> leaves the paranoia
  level \<open>NaN\<close>, and so does a call with \<open>delta\<close> undefined: the level is then not a number
  in \<open>[0, maxParanoia]\<close>.
\<close>

theorem invalid_delta_reaches_level:
  "paranoiaLevel (monitorParanoia lookingBack NaN freshSystem) = NaN
   \<and> paranoiaLevel (monitorParanoia lookingBack Undefined freshSystem) = NaN
   \<and> sanitizeDelta NaN = Num 0.016 \<and> sanitizeDelta Undefined = Num 0.016"
  by (simp add: monitorParanoia_level accrue_def clampLevel_def lookingBack_def
        freshSystem_def newFacilitySystem_def sanitizeDelta_def)

section \<open>The endgame latch\<close>

lemma endgameHold_timer_up:
  "jge (paranoiaLevel s) (Num 99) \<Longrightarrow>
   maxParanoiaTimer (endgameHold delta s) =
     jadd (if maxParanoiaTimer s = Undefined then Num 0 else maxParanoiaTimer s) delta"
  by (simp add: endgameHold_def Let_def)

lemma endgameHold_timer_down:
  "\<not> jge (paranoiaLevel s) (Num 99) \<Longrightarrow> jgt (maxParanoiaTimer s) (Num 0) \<Longrightarrow>
   maxParanoiaTimer (endgameHold delta s) = jsub (maxParanoiaTimer s) (jmul delta (Num 0.5))"
  by (simp add: endgameHold_def Let_def)

lemma endgameHold_firings:
  "endgameFirings (endgameHold delta s) =
     endgameFirings s +
       (if jge (paranoiaLevel s) (Num 99) \<and> jgt (maxParanoiaTimer (endgameHold delta s)) (Num 20)
           \<and> \<not> endgameTriggered s then 1 else 0)"
  by (simp add: endgameHold_def Let_def)

lemma endgameHold_fired:
  "endgameFirings (endgameHold delta s) = Suc (endgameFirings s) \<Longrightarrow>
     endgameTriggered (endgameHold delta s) \<and> \<not> active (blackout (endgameHold delta s))
     \<and> \<not> active (cameraInversion (endgameHold delta s))
     \<and> \<not> forceBlackout (environment (endgameHold delta s))
     \<and> isEndgame (environment (endgameHold delta s))"
  by (simp add: endgameHold_def Let_def split: if_splits)

lemma endgameHold_latched:
  "endgameTriggered s \<Longrightarrow>
     endgameTriggered (endgameHold delta s) \<and> endgameFirings (endgameHold delta s) = endgameFirings s"
  by (simp add: endgameHold_def Let_def)

lemma factor_hold:
  "maxParanoia s = Num 100 \<Longrightarrow> jge (getParanoiaFactor s) (Num 0.99) = jge (paranoiaLevel s) (Num 99)"
  by (cases "paranoiaLevel s") (simp_all add: getParanoiaFactor_def)

section \<open>What the messaging and the random events leave alone\<close>

lemma logMessage_fields [simp]:
  "environment (logMessage txt f s) = environment s"
  "paranoiaLevel (logMessage txt f s) = paranoiaLevel s"
  "maxParanoia (logMessage txt f s) = maxParanoia s"
  "maxParanoiaTimer (logMessage txt f s) = maxParanoiaTimer s"
  "endgameTriggered (logMessage txt f s) = endgameTriggered s"
  "endgameFirings (logMessage txt f s) = endgameFirings s"
  "baseMessageCooldown (logMessage txt f s) = baseMessageCooldown s"
  "lastMessageTime (logMessage txt f s) = lastMessageTime s"
  "displayed (logMessage txt f s) = displayed s @ [txt]"
  by (simp_all add: logMessage_def)

lemma triggerMessage_fields [simp]:
  "environment (fst (triggerMessage t n f sg)) = environment (fst sg)"
  "paranoiaLevel (fst (triggerMessage t n f sg)) = paranoiaLevel (fst sg)"
  "maxParanoia (fst (triggerMessage t n f sg)) = maxParanoia (fst sg)"
  "maxParanoiaTimer (fst (triggerMessage t n f sg)) = maxParanoiaTimer (fst sg)"
  "endgameTriggered (fst (triggerMessage t n f sg)) = endgameTriggered (fst sg)"
  "endgameFirings (fst (triggerMessage t n f sg)) = endgameFirings (fst sg)"
  "baseMessageCooldown (fst (triggerMessage t n f sg)) = baseMessageCooldown (fst sg)"
  "lastMessageTime (fst (triggerMessage t n f sg)) = t"
  by (simp_all add: triggerMessage_def Let_def split: prod.splits option.splits)

lemma checkMessaging_fields [simp]:
  "environment (fst (checkMessaging p t f sg)) = environment (fst sg)"
  "paranoiaLevel (fst (checkMessaging p t f sg)) = paranoiaLevel (fst sg)"
  "maxParanoia (fst (checkMessaging p t f sg)) = maxParanoia (fst sg)"
  "maxParanoiaTimer (fst (checkMessaging p t f sg)) = maxParanoiaTimer (fst sg)"
  "endgameTriggered (fst (checkMessaging p t f sg)) = endgameTriggered (fst sg)"
  "endgameFirings (fst (checkMessaging p t f sg)) = endgameFirings (fst sg)"
  "baseMessageCooldown (fst (checkMessaging p t f sg)) = baseMessageCooldown (fst sg)"
  by (simp_all add: checkMessaging_def Let_def split: prod.splits option.splits)

lemma driveEnvironmentalDrift_fields [simp]:
  "paranoiaLevel (driveEnvironmentalDrift f s) = paranoiaLevel s"
  "maxParanoia (driveEnvironmentalDrift f s) = maxParanoia s"
  "maxParanoiaTimer (driveEnvironmentalDrift f s) = maxParanoiaTimer s"
  "endgameTriggered (driveEnvironmentalDrift f s) = endgameTriggered s"
  "endgameFirings (driveEnvironmentalDrift f s) = endgameFirings s"
  "baseMessageCooldown (driveEnvironmentalDrift f s) = baseMessageCooldown s"
  "lastMessageTime (driveEnvironmentalDrift f s) = lastMessageTime s"
  "displayed (driveEnvironmentalDrift f s) = displayed s"
  "drift (environment (driveEnvironmentalDrift f s)) =
     (drift (environment s))\<lparr>pillarOffset := driftIntensityOf f * 1.5\<rparr>"
  by (simp_all add: driveEnvironmentalDrift_def setDriftIntensity_def)

lemma showMirage_drift [simp]: "drift (fst (showMirage z eg)) = drift (fst eg)"
  by (simp add: showMirage_def Let_def split: prod.splits)

lemma hideMirage_drift [simp]: "drift (hideMirage e) = drift e"
  by (simp add: hideMirage_def)

lemma updateMirageEffect_drift [simp]: "drift (fst (updateMirageEffect eg)) = drift (fst eg)"
  by (simp add: updateMirageEffect_def Let_def split: prod.splits)

lemma flickerLights_drift [simp]: "drift (fst (flickerLights eg)) = drift (fst eg)"
  by (simp add: flickerLights_def Let_def split: prod.splits)

lemma blackoutTick_fields [simp]:
  "paranoiaLevel (fst (blackoutTick z d sg)) = paranoiaLevel (fst sg)"
  "maxParanoia (fst (blackoutTick z d sg)) = maxParanoia (fst sg)"
  "maxParanoiaTimer (fst (blackoutTick z d sg)) = maxParanoiaTimer (fst sg)"
  "endgameTriggered (fst (blackoutTick z d sg)) = endgameTriggered (fst sg)"
  "endgameFirings (fst (blackoutTick z d sg)) = endgameFirings (fst sg)"
  "baseMessageCooldown (fst (blackoutTick z d sg)) = baseMessageCooldown (fst sg)"
  "lastMessageTime (fst (blackoutTick z d sg)) = lastMessageTime (fst sg)"
  "displayed (fst (blackoutTick z d sg)) = displayed (fst sg)"
  by (simp_all add: blackoutTick_def Let_def split: prod.splits)

lemma blackoutTick_drift [simp]:
  "drift (environment (fst (blackoutTick z d sg))) = drift (environment (fst sg))"
  by (simp add: blackoutTick_def Let_def case_prod_beta)
lemma cameraTwist_fields [simp]:
  "paranoiaLevel (fst (cameraTwist d f sg)) = paranoiaLevel (fst sg)"
  "maxParanoia (fst (cameraTwist d f sg)) = maxParanoia (fst sg)"
  "maxParanoiaTimer (fst (cameraTwist d f sg)) = maxParanoiaTimer (fst sg)"
  "endgameTriggered (fst (cameraTwist d f sg)) = endgameTriggered (fst sg)"
  "endgameFirings (fst (cameraTwist d f sg)) = endgameFirings (fst sg)"
  "baseMessageCooldown (fst (cameraTwist d f sg)) = baseMessageCooldown (fst sg)"
  "lastMessageTime (fst (cameraTwist d f sg)) = lastMessageTime (fst sg)"
  "displayed (fst (cameraTwist d f sg)) = displayed (fst sg)"
  "environment (fst (cameraTwist d f sg)) = environment (fst sg)"
  by (simp_all add: cameraTwist_def Let_def split: prod.splits)

lemma handleRandomEvents_fields [simp]:
  "paranoiaLevel (fst (handleRandomEvents z t d f sg)) = paranoiaLevel (fst sg)"
  "maxParanoia (fst (handleRandomEvents z t d f sg)) = maxParanoia (fst sg)"
  "maxParanoiaTimer (fst (handleRandomEvents z t d f sg)) = maxParanoiaTimer (fst sg)"
  "endgameTriggered (fst (handleRandomEvents z t d f sg)) = endgameTriggered (fst sg)"
  "endgameFirings (fst (handleRandomEvents z t d f sg)) = endgameFirings (fst sg)"
  "baseMessageCooldown (fst (handleRandomEvents z t d f sg)) = baseMessageCooldown (fst sg)"
  "lastMessageTime (fst (handleRandomEvents z t d f sg)) = lastMessageTime (fst sg)"
  "displayed (fst (handleRandomEvents z t d f sg)) = displayed (fst sg)"
  by (simp_all add: handleRandomEvents_def Let_def split: prod.splits)

lemma handleRandomEvents_drift [simp]:
  "drift (environment (fst (handleRandomEvents z t d f sg))) = drift (environment (fst sg))"
  by (simp add: handleRandomEvents_def Let_def case_prod_beta)

lemma update_fields [simp]:
  "paranoiaLevel (fst (update p z t d sg)) = paranoiaLevel (monitorParanoia p d (fst sg))"
  "maxParanoia (fst (update p z t d sg)) = maxParanoia (fst sg)"
  "maxParanoiaTimer (fst (update p z t d sg)) = maxParanoiaTimer (monitorParanoia p d (fst sg))"
  "endgameTriggered (fst (update p z t d sg)) = endgameTriggered (monitorParanoia p d (fst sg))"
  "endgameFirings (fst (update p z t d sg)) = endgameFirings (monitorParanoia p d (fst sg))"
  "baseMessageCooldown (fst (update p z t d sg)) = baseMessageCooldown (fst sg)"
  by (simp_all add: update_def Let_def monitorParanoia_def)

lemma update_drift:
  "drift (environment (fst (update p z t d sg))) =
     (drift (environment (fst sg)))
       \<lparr>pillarOffset := driftIntensityOf (getParanoiaFactor (monitorParanoia p d (fst sg))) * 1.5\<rparr>"
  by (simp add: update_def Let_def monitorParanoia_def)

lemma step_generator_fields [simp]:
  "endgameTriggered (fst (step (GenerateChunk zs) sg)) = endgameTriggered (fst sg)"
  "endgameFirings (fst (step (GenerateChunk zs) sg)) = endgameFirings (fst sg)"
  "paranoiaLevel (fst (step (GenerateChunk zs) sg)) = paranoiaLevel (fst sg)"
  "maxParanoia (fst (step (GenerateChunk zs) sg)) = maxParanoia (fst sg)"
  "endgameTriggered (fst (step (CleanupChunks z) sg)) = endgameTriggered (fst sg)"
  "endgameFirings (fst (step (CleanupChunks z) sg)) = endgameFirings (fst sg)"
  "paranoiaLevel (fst (step (CleanupChunks z) sg)) = paranoiaLevel (fst sg)"
  "maxParanoia (fst (step (CleanupChunks z) sg)) = maxParanoia (fst sg)"
  by (simp_all add: Let_def split: prod.splits)

lemma monitorParanoia_latched:
  "endgameTriggered s \<Longrightarrow>
     endgameTriggered (monitorParanoia p d s)
     \<and> endgameFirings (monitorParanoia p d s) = endgameFirings s"
  using endgameHold_latched [of "updateLevel p d s" d] by (simp add: monitorParanoia_def)

lemma monitorParanoia_once:
  "endgameFirings s = (if endgameTriggered s then 1 else 0) \<Longrightarrow>
     endgameFirings (monitorParanoia p d s) = (if endgameTriggered (monitorParanoia p d s) then 1 else 0)"
  by (simp add: monitorParanoia_def endgameHold_def Let_def)

lemma step_latched:
  "endgameTriggered (fst sg) \<Longrightarrow>
     endgameTriggered (fst (step op sg)) \<and> endgameFirings (fst (step op sg)) = endgameFirings (fst sg)"
  by (cases op) (simp_all add: monitorParanoia_latched del: step.simps(2,3))

lemma step_once:
  "endgameFirings (fst sg) = (if endgameTriggered (fst sg) then 1 else 0) \<Longrightarrow>
     endgameFirings (fst (step op sg)) = (if endgameTriggered (fst (step op sg)) then 1 else 0)"
  by (cases op) (simp_all add: monitorParanoia_once del: step.simps(2,3))

lemma run_latched:
  "endgameTriggered (fst sg) \<Longrightarrow>
     endgameTriggered (fst (run ops sg)) \<and> endgameFirings (fst (run ops sg)) = endgameFirings (fst sg)"
proof (induction ops arbitrary: sg)
  case Nil
  then show ?case by simp
next
  case (Cons op ops)
  from step_latched [OF Cons.prems, of op]
  have a: "endgameTriggered (fst (step op sg))"
    and b: "endgameFirings (fst (step op sg)) = endgameFirings (fst sg)" by simp_all
  from Cons.IH [OF a] b show ?case by simp
qed

lemma run_once:
  "endgameFirings (fst sg) = (if endgameTriggered (fst sg) then 1 else 0) \<Longrightarrow>
     endgameFirings (fst (run ops sg)) = (if endgameTriggered (fst (run ops sg)) then 1 else 0)"
proof (induction ops arbitrary: sg)
  case Nil
  then show ?case by simp
next
  case (Cons op ops)
  from Cons.IH [OF step_once [OF Cons.prems, of op]] show ?case by simp
qed

lemma run_append: "run (xs @ ys) sg = run ys (run xs sg)"
  by (induction xs arbitrary: sg) simp_all

text \<open>
  \<^bold>\<open>C2.\<close> The endgame trigger of \<open>monitorParanoia\<close> is a one-way latch. On a state with
  \<open>maxParanoia = 100\<close> in which the endgame block has run once if the flag is set and never
  otherwise (as in the fresh system), one call \<open>monitorParanoia p delta s\<close> gives:
  \<^item> if the factor is at least 0.99 after the level update, the hold timer (0 if it was
    still undefined) grows by \<open>delta\<close>;
  \<^item> the endgame block runs in this call exactly when the factor is at least 0.99, the
    timer now exceeds 20 and the flag was not set;
  \<^item> when it runs, the flag is set, the blackout and the camera inversion are inactive,
    the environment's \<open>forceBlackout\<close> is off and the environment is in its endgame;
  \<^item> if the factor is below 0.99 and the timer was positive, the timer drops by
    \<open>0.5 * delta\<close> (it is not reset to zero).
  Over any sequence of later calls (system updates, chunk synthesis, eviction), the block
  has run at most once, and exactly once when the flag is set; once the flag is set it
  stays set and the block does not run again, whatever the factor does.
\<close>

theorem endgame_latch:
  assumes "maxParanoia s = Num 100"
    and "endgameFirings s = (if endgameTriggered s then 1 else 0)"
  shows
    "(jge (getParanoiaFactor (monitorParanoia p delta s)) (Num 0.99) \<longrightarrow>
        maxParanoiaTimer (monitorParanoia p delta s) =
          jadd (if maxParanoiaTimer s = Undefined then Num 0 else maxParanoiaTimer s) delta)
     \<and> endgameFirings (monitorParanoia p delta s) =
         endgameFirings s +
           (if jge (getParanoiaFactor (monitorParanoia p delta s)) (Num 0.99)
               \<and> jgt (maxParanoiaTimer (monitorParanoia p delta s)) (Num 20)
               \<and> \<not> endgameTriggered s then 1 else 0)
     \<and> (endgameFirings (monitorParanoia p delta s) = Suc (endgameFirings s) \<longrightarrow>
          endgameTriggered (monitorParanoia p delta s)
          \<and> \<not> active (blackout (monitorParanoia p delta s))
          \<and> \<not> active (cameraInversion (monitorParanoia p delta s))
          \<and> \<not> forceBlackout (environment (monitorParanoia p delta s))
          \<and> isEndgame (environment (monitorParanoia p delta s)))
     \<and> (\<not> jge (getParanoiaFactor (monitorParanoia p delta s)) (Num 0.99)
          \<and> jgt (maxParanoiaTimer s) (Num 0) \<longrightarrow>
          maxParanoiaTimer (monitorParanoia p delta s) =
            jsub (maxParanoiaTimer s) (jmul delta (Num 0.5)))
     \<and> (\<forall>ops g. endgameFirings (fst (run ops (s, g))) =
                   (if endgameTriggered (fst (run ops (s, g))) then 1 else 0))
     \<and> (\<forall>ops more g. endgameTriggered (fst (run ops (s, g))) \<longrightarrow>
                   endgameTriggered (fst (run (ops @ more) (s, g)))
                   \<and> endgameFirings (fst (run (ops @ more) (s, g))) = 1)"
proof -
  let ?u = "updateLevel p delta s"
  let ?m = "monitorParanoia p delta s"
  have m: "?m = endgameHold delta ?u"
    by (simp add: monitorParanoia_def)
  have lv: "paranoiaLevel ?m = paranoiaLevel ?u"
    by (simp add: m)
  have f: "jge (getParanoiaFactor ?m) (Num 0.99) = jge (paranoiaLevel ?u) (Num 99)"
    using factor_hold [of ?m] assms(1) by (simp add: m)
  have tu: "maxParanoiaTimer ?u = maxParanoiaTimer s" and gu: "endgameTriggered ?u = endgameTriggered s"
    and fu: "endgameFirings ?u = endgameFirings s"
    by simp_all
  have c1: "jge (getParanoiaFactor ?m) (Num 0.99) \<longrightarrow>
        maxParanoiaTimer ?m =
          jadd (if maxParanoiaTimer s = Undefined then Num 0 else maxParanoiaTimer s) delta"
  proof
    assume "jge (getParanoiaFactor ?m) (Num 0.99)"
    then have "jge (paranoiaLevel ?u) (Num 99)" using f by simp
    from endgameHold_timer_up [OF this, of delta]
    show "maxParanoiaTimer ?m =
          jadd (if maxParanoiaTimer s = Undefined then Num 0 else maxParanoiaTimer s) delta"
      by (simp only: m tu)
  qed
  have c2: "endgameFirings ?m =
         endgameFirings s +
           (if jge (getParanoiaFactor ?m) (Num 0.99)
               \<and> jgt (maxParanoiaTimer ?m) (Num 20)
               \<and> \<not> endgameTriggered s then 1 else 0)"
  proof -
    have "endgameFirings ?m =
         endgameFirings s +
           (if jge (paranoiaLevel ?u) (Num 99)
               \<and> jgt (maxParanoiaTimer ?m) (Num 20)
               \<and> \<not> endgameTriggered s then 1 else 0)"
      using endgameHold_firings [of delta ?u] by (simp only: m gu fu)
    then show ?thesis by (simp only: f)
  qed
  have c3: "endgameFirings ?m = Suc (endgameFirings s) \<longrightarrow>
          endgameTriggered ?m
          \<and> \<not> active (blackout ?m)
          \<and> \<not> active (cameraInversion ?m)
          \<and> \<not> forceBlackout (environment ?m)
          \<and> isEndgame (environment ?m)"
    using endgameHold_fired [of delta ?u] unfolding m fu by blast
  have c4: "\<not> jge (getParanoiaFactor ?m) (Num 0.99)
          \<and> jgt (maxParanoiaTimer s) (Num 0) \<longrightarrow>
          maxParanoiaTimer ?m =
            jsub (maxParanoiaTimer s) (jmul delta (Num 0.5))"
  proof
    assume a: "\<not> jge (getParanoiaFactor ?m) (Num 0.99) \<and> jgt (maxParanoiaTimer s) (Num 0)"
    then have 1: "\<not> jge (paranoiaLevel ?u) (Num 99)" using f by simp
    from a have 2: "jgt (maxParanoiaTimer ?u) (Num 0)" by (simp only: tu)
    from endgameHold_timer_down [OF 1 2, of delta]
    show "maxParanoiaTimer ?m = jsub (maxParanoiaTimer s) (jmul delta (Num 0.5))"
      by (simp only: m tu)
  qed
  have c5: "\<forall>ops g. endgameFirings (fst (run ops (s, g))) =
                   (if endgameTriggered (fst (run ops (s, g))) then 1 else 0)"
    using run_once [of "(s, g)" for g] assms(2) by simp
  have c6: "\<forall>ops more g. endgameTriggered (fst (run ops (s, g))) \<longrightarrow>
                   endgameTriggered (fst (run (ops @ more) (s, g)))
                   \<and> endgameFirings (fst (run (ops @ more) (s, g))) = 1"
  proof (intro allI impI)
    fix ops more g
    assume t: "endgameTriggered (fst (run ops (s, g)))"
    from c5 t have one: "endgameFirings (fst (run ops (s, g))) = 1" by simp
    from run_latched [OF t, of more] one
    show "endgameTriggered (fst (run (ops @ more) (s, g)))
            \<and> endgameFirings (fst (run (ops @ more) (s, g))) = 1"
      by (simp add: run_append)
  qed
  from c1 c2 c3 c4 c5 c6 show ?thesis by blast
qed


theorem endgame_latch_witness:
  "maxParanoia holding = Num 100 \<and> endgameFirings holding = 0 \<and> \<not> endgameTriggered holding
   \<and> active (blackout holding) \<and> active (cameraInversion holding)
   \<and> forceBlackout (environment holding)
   \<and> maxParanoiaTimer (monitorParanoia lookingBack (Num 1) holding) = Num 21
   \<and> endgameFirings (monitorParanoia lookingBack (Num 1) holding) = 1
   \<and> endgameTriggered (monitorParanoia lookingBack (Num 1) holding)
   \<and> \<not> active (blackout (monitorParanoia lookingBack (Num 1) holding))
   \<and> \<not> active (cameraInversion (monitorParanoia lookingBack (Num 1) holding))
   \<and> \<not> forceBlackout (environment (monitorParanoia lookingBack (Num 1) holding))"
proof -
  have lv: "paranoiaLevel (monitorParanoia lookingBack (Num 1) holding) = Num 100"
    by (simp add: monitorParanoia_level accrue_Num clampLevel_def holding_def freshSystem_def
          newFacilitySystem_def lookingBack_def)
  have h: "maxParanoia holding = Num 100" "endgameFirings holding = 0" "\<not> endgameTriggered holding"
    "active (blackout holding)" "active (cameraInversion holding)"
    "forceBlackout (environment holding)" "maxParanoiaTimer holding = Num 20"
    by (simp_all add: holding_def freshSystem_def newFacilitySystem_def)
  have fa: "getParanoiaFactor (monitorParanoia lookingBack (Num 1) holding) = Num 1"
    using lv h(1) by (simp add: getParanoiaFactor_def monitorParanoia_max)
  from endgame_latch [of holding lookingBack "Num 1"] h fa
  show ?thesis by simp
qed

section \<open>Ranges of the drift state\<close>

lemma MathUtils_clamp_near:
  "lo \<le> h \<Longrightarrow> h \<le> hi \<Longrightarrow> \<bar>MathUtils_clamp (h + x) lo hi - h\<bar> \<le> \<bar>x\<bar>"
  by (simp add: MathUtils_clamp_def max_def min_def abs_if)

lemma drift_clamps:
  "- 1 \<le> MathUtils_clamp v (- 1.0) 1.5" "MathUtils_clamp v (- 1.0) 1.5 \<le> 1.5"
  "- 0.5 \<le> MathUtils_clamp v (- 0.5) 0.8" "MathUtils_clamp v (- 0.5) 0.8 \<le> 0.8"
  "- 1 \<le> MathUtils_clamp v (- 1.0) 1.0" "MathUtils_clamp v (- 1.0) 1.0 \<le> 1"
  by (auto simp add: MathUtils_clamp_def max_def min_def)

lemma driftNudge_fields:
  "loopCount (fst (driftNudge g d)) = Suc (loopCount d)"
  "heightOffset (fst (driftNudge g d)) = MathUtils_clamp (heightOffset d + (g 0 - 0.5) * 0.1) (- 1.0) 1.5"
  "lightDimming (fst (driftNudge g d)) = MathUtils_clamp (lightDimming d + (g 1 - 0.3) * 0.1) (- 0.5) 0.8"
  "pillarOffset (fst (driftNudge g d)) = MathUtils_clamp (pillarOffset d + (g 2 - 0.5) * 0.2) (- 1.0) 1.0"
  by (simp_all add: driftNudge_def draw_def Let_def numeral_2_eq_2)

lemma createPillar_drift [simp]:
  "drift (fst (snd (createPillar c w h z cw eg))) = drift (fst eg)"
  by (simp add: createPillar_def Let_def split: prod.splits)

lemma pillarLoop_drift [simp]:
  "drift (fst (snd (pillarLoop zs w h cw ceg))) = drift (fst (snd ceg))"
  by (induction zs arbitrary: ceg) (simp_all add: Let_def)

lemma generateCorridorChunk_drift:
  "drift (fst (generateCorridorChunk zStart (e, g))) = fst (driftNudge g (drift e))"
  by (simp add: generateCorridorChunk_def Let_def case_prod_beta)

lemma removeChunk_fields [simp]:
  "drift (removeChunk c e) = drift e"
  "chunks (removeChunk c e) = chunks e"
  by (simp_all add: removeChunk_def removeLightsInChunk_def Let_def)

lemma cleanupLoop_drift [simp]: "drift (cleanupLoop n thr e) = drift e"
  by (induction n arbitrary: e) (simp_all add: Let_def)

lemma cleanupChunks_drift [simp]: "drift (cleanupChunks z e) = drift e"
  by (simp add: cleanupChunks_def)

lemma driftIntensityOf_range:
  assumes "maxParanoia s = Num 100"
  shows "0 \<le> driftIntensityOf (getParanoiaFactor (monitorParanoia p d s))
         \<and> driftIntensityOf (getParanoiaFactor (monitorParanoia p d s)) \<le> 1"
proof (cases "accrue p d (paranoiaLevel s)")
  case (Num x)
  then have "getParanoiaFactor (monitorParanoia p d s) = Num (max 0 (min x 100) / 100)"
    using assms by (simp add: getParanoiaFactor_def monitorParanoia_level monitorParanoia_max clampLevel_def)
  then show ?thesis by (auto simp add: driftIntensityOf_def max_def min_def)
next
  case Undefined
  then have "getParanoiaFactor (monitorParanoia p d s) = NaN"
    using assms by (simp add: getParanoiaFactor_def monitorParanoia_level monitorParanoia_max clampLevel_def)
  then show ?thesis by (simp add: driftIntensityOf_def)
next
  case NaN
  then have "getParanoiaFactor (monitorParanoia p d s) = NaN"
    using assms by (simp add: getParanoiaFactor_def monitorParanoia_level monitorParanoia_max clampLevel_def)
  then show ?thesis by (simp add: driftIntensityOf_def)
qed

lemma step_drift:
  "drift (environment (fst (step (SystemUpdate p z t d) sg))) =
     (drift (environment (fst sg)))
       \<lparr>pillarOffset := driftIntensityOf (getParanoiaFactor (monitorParanoia p d (fst sg))) * 1.5\<rparr>"
  "drift (environment (fst (step (GenerateChunk zs) sg))) =
     fst (driftNudge (snd sg) (drift (environment (fst sg))))"
  "drift (environment (fst (step (CleanupChunks z) sg))) = drift (environment (fst sg))"
proof -
  show "drift (environment (fst (step (SystemUpdate p z t d) sg))) =
     (drift (environment (fst sg)))
       \<lparr>pillarOffset := driftIntensityOf (getParanoiaFactor (monitorParanoia p d (fst sg))) * 1.5\<rparr>"
    by (simp add: update_drift)
  show "drift (environment (fst (step (GenerateChunk zs) sg))) =
     fst (driftNudge (snd sg) (drift (environment (fst sg))))"
    using generateCorridorChunk_drift [of zs "environment (fst sg)" "snd sg"]
    by (cases "generateCorridorChunk zs (environment (fst sg), snd sg)") (simp add: Let_def)
  show "drift (environment (fst (step (CleanupChunks z) sg))) = drift (environment (fst sg))"
    by simp
qed

lemma step_max [simp]: "maxParanoia (fst (step op sg)) = maxParanoia (fst sg)"
  by (cases op) (simp_all del: step.simps(2,3))

lemma run_max [simp]: "maxParanoia (fst (run ops sg)) = maxParanoia (fst sg)"
  by (induction ops arbitrary: sg) simp_all

lemma step_drift_ranges:
  assumes "maxParanoia (fst sg) = Num 100"
    and "- 1 \<le> heightOffset (drift (environment (fst sg)))"
    and "heightOffset (drift (environment (fst sg))) \<le> 1.5"
    and "- 0.5 \<le> lightDimming (drift (environment (fst sg)))"
    and "lightDimming (drift (environment (fst sg))) \<le> 0.8"
  shows "- 1 \<le> heightOffset (drift (environment (fst (step op sg))))
       \<and> heightOffset (drift (environment (fst (step op sg)))) \<le> 1.5
       \<and> - 0.5 \<le> lightDimming (drift (environment (fst (step op sg))))
       \<and> lightDimming (drift (environment (fst (step op sg)))) \<le> 0.8"
proof (cases op)
  case (SystemUpdate p z t d)
  show ?thesis using assms unfolding SystemUpdate step_drift by simp
next
  case (GenerateChunk zs)
  then show ?thesis
    using drift_clamps [of "heightOffset (drift (environment (fst sg))) + (snd sg 0 - 0.5) * 0.1"]
      drift_clamps [of "lightDimming (drift (environment (fst sg))) + (snd sg 1 - 0.3) * 0.1"]
      drift_clamps [of "pillarOffset (drift (environment (fst sg))) + (snd sg 2 - 0.5) * 0.2"]
    by (simp only: step_drift driftNudge_fields)
next
  case (CleanupChunks z)
  show ?thesis using assms unfolding CleanupChunks step_drift by simp
qed

lemma step_pillarOffset_range:
  assumes "maxParanoia (fst sg) = Num 100"
    and "- 1 \<le> pillarOffset (drift (environment (fst sg)))"
    and "pillarOffset (drift (environment (fst sg))) \<le> 1.5"
  shows "- 1 \<le> pillarOffset (drift (environment (fst (step op sg))))
       \<and> pillarOffset (drift (environment (fst (step op sg)))) \<le> 1.5"
proof (cases op)
  case (SystemUpdate p z t d)
  from driftIntensityOf_range [OF assms(1), of p d]
  show ?thesis unfolding SystemUpdate step_drift by simp
next
  case (GenerateChunk zs)
  let ?v = "pillarOffset (drift (environment (fst sg))) + (snd sg 2 - 0.5) * 0.2"
  have "pillarOffset (drift (environment (fst (step op sg)))) = MathUtils_clamp ?v (- 1.0) 1.0"
    unfolding GenerateChunk by (simp only: step_drift driftNudge_fields)
  with drift_clamps(5,6) [of ?v] show ?thesis by simp
next
  case (CleanupChunks z)
  show ?thesis using assms unfolding CleanupChunks step_drift by simp
qed

lemma run_drift_ranges:
  assumes "maxParanoia (fst sg) = Num 100"
    and "- 1 \<le> heightOffset (drift (environment (fst sg)))"
    and "heightOffset (drift (environment (fst sg))) \<le> 1.5"
    and "- 0.5 \<le> lightDimming (drift (environment (fst sg)))"
    and "lightDimming (drift (environment (fst sg))) \<le> 0.8"
    and "- 1 \<le> pillarOffset (drift (environment (fst sg)))"
    and "pillarOffset (drift (environment (fst sg))) \<le> 1.5"
  shows "- 1 \<le> heightOffset (drift (environment (fst (run ops sg))))
       \<and> heightOffset (drift (environment (fst (run ops sg)))) \<le> 1.5
       \<and> - 0.5 \<le> lightDimming (drift (environment (fst (run ops sg))))
       \<and> lightDimming (drift (environment (fst (run ops sg)))) \<le> 0.8
       \<and> - 1 \<le> pillarOffset (drift (environment (fst (run ops sg))))
       \<and> pillarOffset (drift (environment (fst (run ops sg)))) \<le> 1.5"
  using assms
proof (induction ops arbitrary: sg)
  case Nil
  then show ?case by simp
next
  case (Cons op ops)
  have m: "maxParanoia (fst (step op sg)) = Num 100" using Cons.prems(1) by simp
  from step_drift_ranges [OF Cons.prems(1-5), of op]
       step_pillarOffset_range [OF Cons.prems(1,6,7), of op]
  show ?case using Cons.IH [OF m] by simp
qed

lemma freshSystem_fields:
  "maxParanoia freshSystem = Num 100"
  "drift (environment freshSystem) =
     \<lparr> loopCount = 0, heightOffset = 0, lightDimming = 0, pillarOffset = 0 \<rparr>"
  "paranoiaLevel freshSystem = Num 0"
  "endgameTriggered freshSystem = False"
  "endgameFirings freshSystem = 0"
  by (simp_all add: freshSystem_def newFacilitySystem_def newFacilityGenerator_def)

text \<open>
  \<^bold>\<open>C4\<close>, as stated, fails: the claim bounds \<open>pillarOffset\<close> by 1.0 in every reachable
  state, \<open>setDriftIntensity\<close> included. One system update on the fresh system, with the
  player looking back during a frame of 5 seconds, raises the paranoia level to 100, the
  factor to 1 and the drift intensity to 1: \<open>setDriftIntensity\<close> stores \<open>1.5\<close>.
\<close>

theorem pillarOffset_exceeds_clamp:
  "pillarOffset (drift (environment (fst (run [SystemUpdate lookingBack 0 (Num 0) (Num 5)]
       (freshSystem, halves))))) = 1.5
   \<and> \<not> pillarOffset (drift (environment (fst (run [SystemUpdate lookingBack 0 (Num 0) (Num 5)]
       (freshSystem, halves))))) \<le> 1.0"
proof -
  have "getParanoiaFactor (monitorParanoia lookingBack (Num 5) freshSystem) = Num 1"
    by (simp add: getParanoiaFactor_def monitorParanoia_level monitorParanoia_max accrue_Num
          clampLevel_def freshSystem_fields lookingBack_def)
  then show ?thesis
    by (simp add: step_drift freshSystem_fields driftIntensityOf_def del: step.simps)
qed

text \<open>
  \<^bold>\<open>C4, amended.\<close> In every state reached from the fresh system by system updates, chunk
  syntheses and evictions, \<open>heightOffset\<close> is in \<open>[-1.0, 1.5]\<close>, \<open>lightDimming\<close> in
  \<open>[-0.5, 0.8]\<close> and \<open>pillarOffset\<close> in \<open>[-1.0, 1.5]\<close>. From such a state:
  \<^item> a system update leaves \<open>loopCount\<close>, \<open>heightOffset\<close> and \<open>lightDimming\<close> as they are
    and overwrites \<open>pillarOffset\<close> with 1.5 times the drift intensity, a value in
    \<open>[0, 1.5]\<close>;
  \<^item> an eviction leaves the drift state as it is;
  \<^item> a chunk synthesis adds one to \<open>loopCount\<close>, leaves \<open>pillarOffset\<close> in \<open>[-1.0, 1.0]\<close>,
    and moves \<open>heightOffset\<close> and \<open>lightDimming\<close> by no more than the size of their nudge,
    \<open>\<bar>r - 0.5\<bar> * 0.1\<close> and \<open>\<bar>r - 0.3\<bar> * 0.1\<close> for their draws \<open>r\<close>.
\<close>

theorem drift_ranges:
  "(let d = drift (environment (fst (run ops (freshSystem, g))))
    in - 1.0 \<le> heightOffset d \<and> heightOffset d \<le> 1.5
       \<and> - 0.5 \<le> lightDimming d \<and> lightDimming d \<le> 0.8
       \<and> - 1.0 \<le> pillarOffset d \<and> pillarOffset d \<le> 1.5)
   \<and> (let sg = run ops (freshSystem, g);
           d = drift (environment (fst sg));
           d' = drift (environment (fst (step (SystemUpdate p z t dl) sg)))
       in loopCount d' = loopCount d \<and> heightOffset d' = heightOffset d
          \<and> lightDimming d' = lightDimming d
          \<and> pillarOffset d' = driftIntensityOf (getParanoiaFactor (monitorParanoia p dl (fst sg))) * 1.5
          \<and> 0 \<le> pillarOffset d' \<and> pillarOffset d' \<le> 1.5)
   \<and> (let sg = run ops (freshSystem, g)
       in drift (environment (fst (step (CleanupChunks z) sg))) = drift (environment (fst sg)))
   \<and> (let sg = run ops (freshSystem, g);
           d = drift (environment (fst sg));
           d' = drift (environment (fst (step (GenerateChunk zs) sg)))
       in loopCount d' = Suc (loopCount d)
          \<and> - 1.0 \<le> pillarOffset d' \<and> pillarOffset d' \<le> 1.0
          \<and> \<bar>heightOffset d' - heightOffset d\<bar> \<le> \<bar>snd sg 0 - 0.5\<bar> * 0.1
          \<and> \<bar>lightDimming d' - lightDimming d\<bar> \<le> \<bar>snd sg 1 - 0.3\<bar> * 0.1)"
proof -
  let ?sg = "run ops (freshSystem, g)"
  let ?d = "drift (environment (fst ?sg))"
  have mx: "maxParanoia (fst ?sg) = Num 100" by (simp add: freshSystem_fields)
  have r: "- 1 \<le> heightOffset ?d \<and> heightOffset ?d \<le> 1.5
       \<and> - 0.5 \<le> lightDimming ?d \<and> lightDimming ?d \<le> 0.8
       \<and> - 1 \<le> pillarOffset ?d \<and> pillarOffset ?d \<le> 1.5"
    by (rule run_drift_ranges) (simp_all add: freshSystem_fields)
  have u: "drift (environment (fst (step (SystemUpdate p z t dl) ?sg))) =
             ?d\<lparr>pillarOffset := driftIntensityOf (getParanoiaFactor (monitorParanoia p dl (fst ?sg))) * 1.5\<rparr>"
    by (rule step_drift)
  have c: "drift (environment (fst (step (CleanupChunks z) ?sg))) = ?d"
    by (rule step_drift)
  have n: "drift (environment (fst (step (GenerateChunk zs) ?sg))) = fst (driftNudge (snd ?sg) ?d)"
    by (rule step_drift)
  have ur: "0 \<le> driftIntensityOf (getParanoiaFactor (monitorParanoia p dl (fst ?sg)))
         \<and> driftIntensityOf (getParanoiaFactor (monitorParanoia p dl (fst ?sg))) \<le> 1"
    by (rule driftIntensityOf_range [OF mx])
  have h: "\<bar>MathUtils_clamp (heightOffset ?d + (snd ?sg 0 - 0.5) * 0.1) (- 1.0) 1.5 - heightOffset ?d\<bar>
             \<le> \<bar>(snd ?sg 0 - 0.5) * 0.1\<bar>"
    using r by (intro MathUtils_clamp_near) simp_all
  have l: "\<bar>MathUtils_clamp (lightDimming ?d + (snd ?sg 1 - 0.3) * 0.1) (- 0.5) 0.8 - lightDimming ?d\<bar>
             \<le> \<bar>(snd ?sg 1 - 0.3) * 0.1\<bar>"
    using r by (intro MathUtils_clamp_near) simp_all
  have p1: "- 1 \<le> pillarOffset (fst (driftNudge (snd ?sg) ?d))
          \<and> pillarOffset (fst (driftNudge (snd ?sg) ?d)) \<le> 1"
    by (simp only: driftNudge_fields drift_clamps)
  show ?thesis
    unfolding Let_def u c n
    using r ur h l p1 by (simp add: driftNudge_fields abs_mult)
qed

section \<open>Eviction\<close>

lemma cleanupLoop_chunks:
  "n \<le> length (chunks e) \<Longrightarrow>
     chunks (cleanupLoop n thr e) =
       filter (\<lambda>c. \<not> position_z c > thr) (take n (chunks e)) @ drop n (chunks e)"
proof (induction n arbitrary: e)
  case 0
  then show ?case by simp
next
  case (Suc n)
  let ?cs = "chunks e"
  have n: "n < length ?cs" using Suc.prems by simp
  have tk: "take (Suc n) ?cs = take n ?cs @ [?cs ! n]"
    using n by (simp add: take_Suc_conv_app_nth)
  show ?case
  proof (cases "position_z (?cs ! n) > thr")
    case True
    let ?e2 = "(removeChunk (?cs ! n) e)\<lparr>chunks := take n ?cs @ drop (Suc n) ?cs\<rparr>"
    have len: "n \<le> length (chunks ?e2)" using n by simp
    have "chunks (cleanupLoop (Suc n) thr e) = chunks (cleanupLoop n thr ?e2)"
      using True by (simp add: Let_def)
    also have "\<dots> = filter (\<lambda>c. \<not> position_z c > thr) (take n (chunks ?e2)) @ drop n (chunks ?e2)"
      by (rule Suc.IH [OF len])
    also have "\<dots> = filter (\<lambda>c. \<not> position_z c > thr) (take n ?cs) @ drop (Suc n) ?cs"
      using n by simp
    finally show ?thesis using True by (simp add: tk)
  next
    case False
    have "chunks (cleanupLoop (Suc n) thr e) = chunks (cleanupLoop n thr e)"
      using False by (simp add: Let_def)
    also have "\<dots> = filter (\<lambda>c. \<not> position_z c > thr) (take n ?cs) @ drop n ?cs"
      using Suc.IH [of e] n by simp
    finally show ?thesis using False n by (simp add: tk Cons_nth_drop_Suc)
  qed
qed

lemma cleanupLoop_noop:
  "\<forall>i<n. \<not> position_z (chunks e ! i) > thr \<Longrightarrow> cleanupLoop n thr e = e"
  by (induction n arbitrary: e) (simp_all add: Let_def)

lemma cleanupChunks_none_left:
  "c \<in> set (chunks (cleanupChunks playerZ e)) \<Longrightarrow> \<not> position_z c > playerZ + 40"
  by (simp add: cleanupChunks_def cleanupLoop_chunks)

text \<open>
  \<^bold>\<open>C6.\<close> Eviction is idempotent: a second \<open>cleanupChunks\<close> with the same player position,
  right after the first, returns the generator unchanged; so the chunk list, the light
  registry, the interactables and the pillar positions are those the first call left.
\<close>

theorem cleanupChunks_idempotent:
  "cleanupChunks playerZ (cleanupChunks playerZ e) = cleanupChunks playerZ e"
proof -
  let ?e1 = "cleanupChunks playerZ e"
  have "\<forall>i<length (chunks ?e1). \<not> position_z (chunks ?e1 ! i) > playerZ + 40"
    using cleanupChunks_none_left [of _ playerZ e] by simp
  then have "cleanupLoop (length (chunks ?e1)) (playerZ + 40) ?e1 = ?e1"
    by (rule cleanupLoop_noop)
  then show ?thesis by (simp add: cleanupChunks_def)
qed

section \<open>Flicker under blackout\<close>

text \<open>
  \<^bold>\<open>C10.\<close> While the generator's \<open>forceBlackout\<close> flag is set, \<open>flickerLights\<close> returns at
  once: no light, no mesh and no other part of the generator changes, and no random number
  is drawn.
\<close>

theorem flickerLights_blackout_noop:
  "forceBlackout e \<Longrightarrow> flickerLights (e, g) = (e, g)"
  by (simp add: flickerLights_def)

theorem flickerLights_blackout_noop_witness:
  "forceBlackout blackedOut \<and> flickerLights (blackedOut, halves) = (blackedOut, halves)"
proof -
  have b: "forceBlackout blackedOut" by (simp add: blackedOut_def)
  from flickerLights_blackout_noop [OF b, of halves] b show ?thesis by simp
qed

section \<open>Entering the corridor\<close>




section \<open>Alignment of the obstacle grid\<close>

lemma pillarGrid_multiples:
  "\<exists>k::int. gZ = 8 * of_int k \<Longrightarrow> z \<in> set (pillarGrid gZ limit) \<Longrightarrow> \<exists>k::int. z = 8 * of_int k"
proof (induction gZ limit rule: pillarGrid.induct)
  case (1 gZ limit)
  show ?case
  proof (cases "gZ < limit")
    case True
    with "1.prems"(2) have "z = gZ \<or> z \<in> set (pillarGrid (gZ + 8) limit)"
      by (subst (asm) pillarGrid.simps) simp
    then show ?thesis
    proof
      assume "z = gZ"
      with "1.prems"(1) show ?thesis by simp
    next
      assume m: "z \<in> set (pillarGrid (gZ + 8) limit)"
      from "1.prems"(1) obtain k :: int where "gZ = 8 * of_int k" by blast
      then have "gZ + 8 = 8 * of_int (k + 1)" by simp
      then have "\<exists>k::int. gZ + 8 = 8 * of_int k" by blast
      from "1.IH" [OF True this m] show ?thesis .
    qed
  next
    case False
    with "1.prems"(2) show ?thesis by (subst (asm) pillarGrid.simps) simp
  qed
qed

lemma createPillar_positions:
  "pillarPositions (fst (snd (createPillar c w h zPos cw eg))) =
     pillarPositions (fst eg) @
       [\<lparr> pos_x = - w / 2 + 0.5 + (snd eg 0 - 0.5) * pillarOffset (drift (fst eg)),
          pos_z = (zPos + (snd eg 4 - 0.5) * pillarOffset (drift (fst eg))) + cw \<rparr>,
        \<lparr> pos_x = w / 2 - 0.5 + (snd eg 2 - 0.5) * pillarOffset (drift (fst eg)),
          pos_z = (zPos + (snd eg 5 - 0.5) * pillarOffset (drift (fst eg))) + cw \<rparr>]"
  by (simp add: createPillar_def Let_def case_prod_beta draw_def eval_nat_numeral)

lemma createPillar_rng:
  "snd (snd (createPillar c w h zPos cw eg)) = (\<lambda>n. snd eg (n + 6))"
  by (simp add: createPillar_def Let_def case_prod_beta draw_def eval_nat_numeral)

lemma pillarLoop_positions:
  "\<exists>new. pillarPositions (fst (snd (pillarLoop zs w h cw (c, e, g)))) = pillarPositions e @ new
         \<and> length new = 2 * length zs
         \<and> (\<forall>q \<in> set new. \<exists>z \<in> set zs. \<exists>n. pos_z q = z + (g n - 0.5) * pillarOffset (drift e))"
proof (induction zs arbitrary: c e g)
  case Nil
  then show ?case by simp
next
  case (Cons gZ zs)
  let ?r = "createPillar c w h (gZ - cw) cw (e, g)"
  let ?c1 = "fst ?r" and ?e1 = "fst (snd ?r)" and ?g1 = "snd (snd ?r)"
  let ?po = "pillarOffset (drift e)"
  let ?two = "[\<lparr> pos_x = - w / 2 + 0.5 + (g 0 - 0.5) * ?po, pos_z = (gZ - cw + (g 4 - 0.5) * ?po) + cw \<rparr>,
               \<lparr> pos_x = w / 2 - 0.5 + (g 2 - 0.5) * ?po, pos_z = (gZ - cw + (g 5 - 0.5) * ?po) + cw \<rparr>]"
  have r: "?r = (?c1, ?e1, ?g1)" by simp
  have pp: "pillarPositions ?e1 = pillarPositions e @ ?two"
    using createPillar_positions [of c w h "gZ - cw" cw "(e, g)"] by simp
  have g1: "?g1 = (\<lambda>n. g (n + 6))"
    using createPillar_rng [of c w h "gZ - cw" cw "(e, g)"] by simp
  have dr: "drift ?e1 = drift e" using createPillar_drift [of c w h "gZ - cw" cw "(e, g)"] by simp
  from Cons.IH [of ?c1 ?e1 ?g1] obtain new where
    n1: "pillarPositions (fst (snd (pillarLoop zs w h cw (?c1, ?e1, ?g1)))) = pillarPositions ?e1 @ new"
    and n2: "length new = 2 * length zs"
    and n3: "\<forall>q \<in> set new. \<exists>z \<in> set zs. \<exists>n. pos_z q = z + (?g1 n - 0.5) * pillarOffset (drift ?e1)"
    by blast
  have step: "pillarLoop (gZ # zs) w h cw (c, e, g) = pillarLoop zs w h cw (?c1, ?e1, ?g1)"
    by (simp add: Let_def)
  have a: "pillarPositions (fst (snd (pillarLoop (gZ # zs) w h cw (c, e, g)))) = pillarPositions e @ (?two @ new)"
    unfolding step n1 pp by simp
  have b: "length (?two @ new) = 2 * length (gZ # zs)" using n2 by simp
  have c: "\<forall>q \<in> set (?two @ new). \<exists>z \<in> set (gZ # zs). \<exists>n. pos_z q = z + (g n - 0.5) * ?po"
  proof
    fix q assume "q \<in> set (?two @ new)"
    then consider "q = ?two ! 0" | "q = ?two ! 1" | "q \<in> set new" by auto
    then show "\<exists>z \<in> set (gZ # zs). \<exists>n. pos_z q = z + (g n - 0.5) * ?po"
    proof cases
      case 1
      then have "pos_z q = gZ + (g 4 - 0.5) * ?po" by simp
      then show ?thesis by auto
    next
      case 2
      then have "pos_z q = gZ + (g 5 - 0.5) * ?po" by simp
      then show ?thesis by auto
    next
      case 3
      with n3 obtain z n where "z \<in> set zs" and "pos_z q = z + (?g1 n - 0.5) * pillarOffset (drift ?e1)"
        by blast
      then have "z \<in> set (gZ # zs)" and "pos_z q = z + (g (n + 6) - 0.5) * ?po"
        by (simp_all add: g1 dr)
      then show ?thesis by blast
    qed
  qed
  from a b c show ?case by blast
qed

lemma generateCorridorChunk_positions:
  "pillarPositions (fst (generateCorridorChunk zStart (e, g))) =
     pillarPositions
       (fst (snd (pillarLoop
          (pillarGrid (of_int \<lceil>(zStart - chunkSize e / 2 - chunkSize e / 2) / 8\<rceil> * 8)
                      (zStart - chunkSize e / 2 - chunkSize e / 2 + chunkSize e))
          6 (5 + heightOffset (fst (driftNudge g (drift e)))) (zStart - chunkSize e / 2)
          (\<lparr> chunk_id = nextId e, position_z = 0,
             children = [nextId e + 1, nextId e + 2, nextId e + 3, nextId e + 4] \<rparr>,
           e\<lparr>drift := fst (driftNudge g (drift e)), nextId := nextId e + 5\<rparr>,
           snd (driftNudge g (drift e))))))"
  by (simp add: generateCorridorChunk_def Let_def case_prod_beta)


lemma driftNudge_rng: "snd (driftNudge g d) = (\<lambda>n. g (n + 3))"
  by (simp add: driftNudge_def draw_def Let_def eval_nat_numeral)

text \<open>
  \<^bold>\<open>C5.\<close> The collision records that \<open>generateCorridorChunk\<close> appends for its pillar
  pairs have, as z coordinate, a multiple of the spacing 8 plus the jitter drawn for that
  pillar, \<open>(r - 0.5) * pillarOffset\<close> for a draw \<open>r\<close> of the call: before the jitter, every
  pillar pair of every chunk stands at a world z that is a multiple of 8, wherever the chunk
  starts.
\<close>

theorem obstacle_grid_alignment:
  assumes "generateCorridorChunk zStart (e, g) = (e', g')"
  shows "\<exists>new. pillarPositions e' = pillarPositions e @ new
           \<and> (\<forall>q \<in> set new. \<exists>(k::int) n.
                  pos_z q = 8 * of_int k + (g n - 0.5) * pillarOffset (drift e'))"
proof -
  let ?cw = "zStart - chunkSize e / 2"
  let ?start = "?cw - chunkSize e / 2"
  let ?zs = "pillarGrid (of_int \<lceil>?start / 8\<rceil> * 8) (?start + chunkSize e)"
  let ?d = "fst (driftNudge g (drift e))"
  let ?g1 = "snd (driftNudge g (drift e))"
  let ?e2 = "e\<lparr>drift := ?d, nextId := nextId e + 5\<rparr>"
  let ?c = "\<lparr> chunk_id = nextId e, position_z = 0,
              children = [nextId e + 1, nextId e + 2, nextId e + 3, nextId e + 4] \<rparr>"
  have e': "e' = fst (generateCorridorChunk zStart (e, g))" using assms by simp
  have dr: "drift e' = ?d" unfolding e' by (rule generateCorridorChunk_drift)
  have pp: "pillarPositions e' =
              pillarPositions (fst (snd (pillarLoop ?zs 6 (5 + heightOffset ?d) ?cw (?c, ?e2, ?g1))))"
    unfolding e' by (rule generateCorridorChunk_positions)
  from pillarLoop_positions [of ?zs 6 "5 + heightOffset ?d" ?cw ?c ?e2 ?g1]
  obtain new where
    n1: "pillarPositions (fst (snd (pillarLoop ?zs 6 (5 + heightOffset ?d) ?cw (?c, ?e2, ?g1))))
           = pillarPositions ?e2 @ new"
    and n3: "\<forall>q \<in> set new. \<exists>z \<in> set ?zs. \<exists>n. pos_z q = z + (?g1 n - 0.5) * pillarOffset (drift ?e2)"
    by blast
  have a: "pillarPositions e' = pillarPositions e @ new" unfolding pp n1 by simp
  have b: "\<forall>q \<in> set new. \<exists>(k::int) n. pos_z q = 8 * of_int k + (g n - 0.5) * pillarOffset (drift e')"
  proof
    fix q assume "q \<in> set new"
    with n3 obtain z n where z: "z \<in> set ?zs"
      and q: "pos_z q = z + (?g1 n - 0.5) * pillarOffset (drift ?e2)" by blast
    have "\<exists>k::int. of_int \<lceil>?start / 8\<rceil> * 8 = (8::real) * of_int k" by (simp add: mult.commute)
    from pillarGrid_multiples [OF this z] obtain k :: int where k: "z = 8 * of_int k" by blast
    have "pos_z q = 8 * of_int k + (g (n + 3) - 0.5) * pillarOffset (drift e')"
      using q k by (simp add: driftNudge_rng dr)
    then show "\<exists>(k::int) n. pos_z q = 8 * of_int k + (g n - 0.5) * pillarOffset (drift e')"
      by blast
  qed
  from a b show ?thesis by blast
qed

lemma pillarGrid_first_chunk: "pillarGrid (- 16) 0 = [- 16, - 8]"
  by (simp add: pillarGrid.simps)

lemma first_chunk_positions:
  "map pos_z (pillarPositions (fst (generateCorridorChunk 0 (newFacilityGenerator, halves))))
     = [- 16, - 16, - 8, - 8]"
proof -
  have c: "\<lceil>- (20::real) / 8\<rceil> = - 2" by (simp add: ceiling_eq_iff)
  have d: "driftNudge halves (drift newFacilityGenerator)
             = (\<lparr> loopCount = 1, heightOffset = 0, lightDimming = 1 / 50, pillarOffset = 0 \<rparr>, halves)"
    by (simp add: driftNudge_def draw_def Let_def halves_def newFacilityGenerator_def MathUtils_clamp_def)
  have s: "chunkSize newFacilityGenerator = 20" "pillarPositions newFacilityGenerator = []"
    by (simp_all add: newFacilityGenerator_def)
  show ?thesis
    by (simp add: generateCorridorChunk_positions s d c pillarGrid_first_chunk Let_def
          createPillar_positions createPillar_rng)
qed

theorem obstacle_grid_alignment_witness:
  "map pos_z (pillarPositions (fst (generateCorridorChunk 0 (newFacilityGenerator, halves))))
     = [- 16, - 16, - 8, - 8]
   \<and> (\<exists>new. pillarPositions (fst (generateCorridorChunk 0 (newFacilityGenerator, halves)))
               = pillarPositions newFacilityGenerator @ new
            \<and> new \<noteq> []
            \<and> (\<forall>q \<in> set new. \<exists>(k::int) n.
                   pos_z q = 8 * of_int k
                     + (halves n - 0.5)
                       * pillarOffset (drift (fst (generateCorridorChunk 0 (newFacilityGenerator, halves))))))"
proof -
  let ?r = "generateCorridorChunk 0 (newFacilityGenerator, halves)"
  have "?r = (fst ?r, snd ?r)" by simp
  from obstacle_grid_alignment [OF this] obtain new where
    a: "pillarPositions (fst ?r) = pillarPositions newFacilityGenerator @ new"
    and b: "\<forall>q \<in> set new. \<exists>(k::int) n.
              pos_z q = 8 * of_int k + (halves n - 0.5) * pillarOffset (drift (fst ?r))"
    by blast
  have "new \<noteq> []" using a first_chunk_positions by (auto simp add: newFacilityGenerator_def)
  with a b first_chunk_positions show ?thesis by blast
qed

section \<open>The message cooldown\<close>

lemma currentCooldown_value:
  "baseMessageCooldown s = Num 15 \<Longrightarrow> currentCooldown s (Num f) = Num (max 8.0 (15.0 - f * 7.0))"
  by (simp add: currentCooldown_def)

lemma triggerMessage_displayed:
  "\<exists>m. displayed (fst (triggerMessage t n f sg)) = displayed (fst sg) @ m \<and> length m \<le> 1"
  by (simp add: triggerMessage_def Let_def case_prod_beta split: option.splits)

lemma checkMessaging_step:
  "(displayed (fst (checkMessaging p t f sg)) = displayed (fst sg)
      \<and> lastMessageTime (fst (checkMessaging p t f sg)) = lastMessageTime (fst sg))
   \<or> (lastMessageTime (fst (checkMessaging p t f sg)) = t
       \<and> \<not> jlt (jsub t (lastMessageTime (fst sg))) (currentCooldown (fst sg) f)
       \<and> (\<exists>m. displayed (fst (checkMessaging p t f sg)) = displayed (fst sg) @ m \<and> length m \<le> 1))"
proof -
  let ?s = "fst sg" and ?g = "snd sg"
  show ?thesis
  proof (cases "endgameTriggered ?s \<or> jlt (jsub t (lastMessageTime ?s)) (currentCooldown ?s f)")
    case True
    then have "checkMessaging p t f sg = (?s, ?g)"
      by (auto simp add: checkMessaging_def Let_def)
    then show ?thesis by simp
  next
    case False
    show ?thesis
    proof (cases "fst (selectPool p f ?g)")
      case None
      then have "checkMessaging p t f sg = (?s, snd (selectPool p f ?g))"
        using False by (simp add: checkMessaging_def Let_def case_prod_beta)
      then show ?thesis by simp
    next
      case (Some poolName)
      then have c: "checkMessaging p t f sg = triggerMessage t poolName f (?s, snd (selectPool p f ?g))"
        using False by (simp add: checkMessaging_def Let_def case_prod_beta)
      from triggerMessage_displayed [of t poolName f "(?s, snd (selectPool p f ?g))"]
      have "\<exists>m. displayed (fst (checkMessaging p t f sg)) = displayed ?s @ m \<and> length m \<le> 1"
        unfolding c by simp
      moreover have "lastMessageTime (fst (checkMessaging p t f sg)) = t"
        unfolding c by simp
      ultimately show ?thesis using False by blast
    qed
  qed
qed

lemma checkMessaging_blocked:
  assumes "baseMessageCooldown (fst sg) = Num 15" and "lastMessageTime (fst sg) = Num l"
    and "t - l < max 8.0 (15.0 - f * 7.0)"
  shows "checkMessaging p (Num t) (Num f) sg = sg"
  using assms by (simp add: checkMessaging_def Let_def currentCooldown_def)

lemma checkMessaging_added:
  "length (displayed (fst (checkMessaging p t f sg))) \<le> Suc (length (displayed (fst sg)))
   \<and> length (displayed (fst sg)) \<le> length (displayed (fst (checkMessaging p t f sg)))"
  using checkMessaging_step [of p t f sg] by auto

lemma checkMessaging_last_grows:
  assumes "baseMessageCooldown (fst sg) = Num 15" and "lastMessageTime (fst sg) = Num l"
  shows "\<exists>l'. lastMessageTime (fst (checkMessaging p (Num t) (Num f) sg)) = Num l' \<and> l \<le> l'"
proof -
  from checkMessaging_step [of p "Num t" "Num f" sg]
  show ?thesis
  proof
    assume "displayed (fst (checkMessaging p (Num t) (Num f) sg)) = displayed (fst sg)
      \<and> lastMessageTime (fst (checkMessaging p (Num t) (Num f) sg)) = lastMessageTime (fst sg)"
    with assms(2) show ?thesis by simp
  next
    assume a: "lastMessageTime (fst (checkMessaging p (Num t) (Num f) sg)) = Num t
       \<and> \<not> jlt (jsub (Num t) (lastMessageTime (fst sg))) (currentCooldown (fst sg) (Num f))
       \<and> (\<exists>m. displayed (fst (checkMessaging p (Num t) (Num f) sg)) = displayed (fst sg) @ m \<and> length m \<le> 1)"
    then have "\<not> t - l < max 8.0 (15.0 - f * 7.0)"
      using assms by (simp add: currentCooldown_def)
    then have "l \<le> t" by simp
    with a show ?thesis by simp
  qed
qed

lemma checkAll_last_grows:
  assumes "baseMessageCooldown (fst sg) = Num 15" and "lastMessageTime (fst sg) = Num l"
  shows "baseMessageCooldown (fst (checkAll calls sg)) = Num 15
         \<and> (\<exists>l'. lastMessageTime (fst (checkAll calls sg)) = Num l' \<and> l \<le> l')"
  using assms
proof (induction calls arbitrary: sg l)
  case Nil
  then show ?case by simp
next
  case (Cons c calls)
  obtain p t f where c: "c = (p, t, f)" by (cases c)
  let ?sg1 = "checkMessaging p (Num t) (Num f) sg"
  have b1: "baseMessageCooldown (fst ?sg1) = Num 15" using Cons.prems(1) by simp
  from checkMessaging_last_grows [OF Cons.prems, of p t f]
  obtain l1 where l1: "lastMessageTime (fst ?sg1) = Num l1" and le: "l \<le> l1" by blast
  from Cons.IH [OF b1 l1] obtain l' where
    "baseMessageCooldown (fst (checkAll calls ?sg1)) = Num 15"
    "lastMessageTime (fst (checkAll calls ?sg1)) = Num l'" "l1 \<le> l'" by blast
  with le show ?case unfolding c by auto
qed

text \<open>
  \<^bold>\<open>C7.\<close> With the constructor's \<open>baseMessageCooldown = 15\<close>, the cooldown that
  \<open>checkMessaging\<close> computes for a factor \<open>f\<close> is \<open>max(8.0, 15.0 - f * 7.0)\<close>. Take two
  calls of \<open>checkMessaging\<close>, at times \<open>t1\<close> and \<open>t2\<close>, with any number of calls (at numeric
  times and factors) between them: if \<open>t2\<close> is less than the cooldown of the later call away
  from \<open>t1\<close>, the two calls together show at most one message; when the earlier call shows
  one, the later call changes nothing at all.
\<close>

theorem message_cooldown:
  assumes "baseMessageCooldown (fst sg) = Num 15"
    and "\<bar>t2 - t1\<bar> < max 8.0 (15.0 - f2 * 7.0)"
  shows "currentCooldown (fst sg) (Num f2) = Num (max 8.0 (15.0 - f2 * 7.0))
         \<and> (length (displayed (fst (checkMessaging p1 (Num t1) f1 sg))) - length (displayed (fst sg)))
            + (length (displayed (fst (checkMessaging p2 (Num t2) (Num f2)
                                       (checkAll calls (checkMessaging p1 (Num t1) f1 sg)))))
               - length (displayed (fst (checkAll calls (checkMessaging p1 (Num t1) f1 sg)))))
            \<le> 1
         \<and> (displayed (fst (checkMessaging p1 (Num t1) f1 sg)) \<noteq> displayed (fst sg) \<longrightarrow>
              checkMessaging p2 (Num t2) (Num f2) (checkAll calls (checkMessaging p1 (Num t1) f1 sg))
                = checkAll calls (checkMessaging p1 (Num t1) f1 sg))"
proof -
  let ?sg1 = "checkMessaging p1 (Num t1) f1 sg"
  let ?sgm = "checkAll calls ?sg1"
  let ?sg2 = "checkMessaging p2 (Num t2) (Num f2) ?sgm"
  have cd: "currentCooldown (fst sg) (Num f2) = Num (max 8.0 (15.0 - f2 * 7.0))"
    by (rule currentCooldown_value [OF assms(1)])
  have b1: "baseMessageCooldown (fst ?sg1) = Num 15" using assms(1) by simp
  have blocked: "?sg2 = ?sgm" if ch: "displayed (fst ?sg1) \<noteq> displayed (fst sg)"
  proof -
    from checkMessaging_step [of p1 "Num t1" f1 sg] ch
    have l1: "lastMessageTime (fst ?sg1) = Num t1" by blast
    from checkAll_last_grows [OF b1 l1, of calls] obtain l' where
      bm: "baseMessageCooldown (fst ?sgm) = Num 15"
      and lm: "lastMessageTime (fst ?sgm) = Num l'" and le: "t1 \<le> l'" by blast
    have "t2 - l' < max 8.0 (15.0 - f2 * 7.0)" using assms(2) le by linarith
    from checkMessaging_blocked [OF bm lm this] show ?thesis .
  qed
  have count: "(length (displayed (fst ?sg1)) - length (displayed (fst sg)))
            + (length (displayed (fst ?sg2)) - length (displayed (fst ?sgm))) \<le> 1"
  proof (cases "displayed (fst ?sg1) = displayed (fst sg)")
    case True
    then show ?thesis using checkMessaging_added [of p2 "Num t2" "Num f2" ?sgm] by arith
  next
    case False
    from blocked [OF False] have e: "?sg2 = ?sgm" .
    have "length (displayed (fst ?sg1)) - length (displayed (fst sg)) \<le> 1"
      using checkMessaging_added [of p1 "Num t1" f1 sg] by arith
    then show ?thesis unfolding e by simp
  qed
  from cd count blocked show ?thesis by blast
qed

lemma first_message:
  "displayed (fst (checkMessaging lookingBack (Num 20) (Num 0) (freshSystem, zeros)))
     = [Some ''IT WAS A LIE'']"
  by (simp add: checkMessaging_def selectPool_def chance_def draw_def triggerMessage_def
        messagePools_def poolAt_def logMessage_def currentCooldown_def Let_def case_prod_beta
        freshSystem_def newFacilitySystem_def lookingBack_def zeros_def eval_nat_numeral)

theorem message_cooldown_witness:
  "baseMessageCooldown (fst (freshSystem, zeros)) = Num 15
   \<and> \<bar>25 - 20\<bar> < max 8.0 (15.0 - 0 * 7.0 :: real)
   \<and> displayed (fst (freshSystem, zeros)) = []
   \<and> displayed (fst (checkMessaging lookingBack (Num 20) (Num 0) (freshSystem, zeros)))
       = [Some ''IT WAS A LIE'']
   \<and> checkMessaging lookingBack (Num 25) (Num 0)
         (checkAll [(standingStill, 22, 0)] (checkMessaging lookingBack (Num 20) (Num 0) (freshSystem, zeros)))
       = checkAll [(standingStill, 22, 0)] (checkMessaging lookingBack (Num 20) (Num 0) (freshSystem, zeros))"
proof -
  have b: "baseMessageCooldown (fst (freshSystem, zeros)) = Num 15"
    and d: "displayed (fst (freshSystem, zeros)) = []"
    by (simp_all add: freshSystem_def newFacilitySystem_def)
  have t: "\<bar>25 - 20\<bar> < max 8.0 (15.0 - 0 * 7.0 :: real)" by simp
  from message_cooldown [OF b t, of lookingBack "Num 0" lookingBack "[(standingStill, 22, 0)]"]
    first_message b d t
  show ?thesis by simp
qed

section \<open>The level at the transition into the corridor\<close>











end
